theory Spec2Isabelle
  imports Complex_Main "HOL-Library.Sublist"
begin

section \<open>JavaScript strings\<close>

text \<open>
  Source texts are modelled as \<open>string\<close> (lists of 8-bit characters), which covers the
  ASCII texts the program exchanges with the wrapped tool. The helpers below follow the
  ECMAScript definitions of the \<open>String.prototype\<close> methods the source calls.
\<close>

definition quote :: char where
  "quote = CHR 0x27"

definition newline :: char where
  "newline = CHR 0x0A"

text \<open>\<open>str.indexOf(pat)\<close>: the first position where \<open>pat\<close> starts; \<open>None\<close> is JavaScript's -1.\<close>

fun indexOf :: "string \<Rightarrow> string \<Rightarrow> nat option" where
  "indexOf [] pat = (if pat = [] then Some 0 else None)"
| "indexOf (c # cs) pat =
     (if prefix pat (c # cs) then Some 0 else map_option Suc (indexOf cs pat))"

text \<open>\<open>str.lastIndexOf(pat)\<close>: the last position where \<open>pat\<close> starts.\<close>

fun lastIndexOf :: "string \<Rightarrow> string \<Rightarrow> nat option" where
  "lastIndexOf [] pat = (if pat = [] then Some 0 else None)"
| "lastIndexOf (c # cs) pat =
     (case lastIndexOf cs pat of
        Some i \<Rightarrow> Some (Suc i)
      | None \<Rightarrow> if prefix pat (c # cs) then Some 0 else None)"

definition js_index :: "nat option \<Rightarrow> int" where
  "js_index r = (case r of None \<Rightarrow> - 1 | Some i \<Rightarrow> int i)"

text \<open>
  \<open>str.substring(a, b)\<close>: both arguments are clamped to \<open>[0, length]\<close> and swapped when
  \<open>a > b\<close>.
\<close>

definition substring :: "string \<Rightarrow> int \<Rightarrow> int \<Rightarrow> string" where
  "substring s a b =
     (let n = int (length s);
          a' = max 0 (min a n);
          b' = max 0 (min b n);
          lo = min a' b';
          hi = max a' b'
      in take (nat (hi - lo)) (drop (nat lo) s))"

text \<open>\<open>str.split(sep)\<close> for a non-empty separator \<open>sep\<close>.\<close>

function js_split_from :: "string \<Rightarrow> string \<Rightarrow> string \<Rightarrow> string list" where
  "js_split_from sep acc [] = [rev acc]"
| "js_split_from sep acc (c # cs) =
     (if sep \<noteq> [] \<and> prefix sep (c # cs)
      then rev acc # js_split_from sep [] (drop (length sep) (c # cs))
      else js_split_from sep (c # acc) cs)"
  by pat_completeness auto
termination
  by (relation "measure (\<lambda>(sep, acc, s). length s)") auto

definition js_split :: "string \<Rightarrow> string \<Rightarrow> string list" where
  "js_split sep s = js_split_from sep [] s"

text \<open>
  \<open>str.replace(from, to)\<close> with a string pattern replaces the first occurrence of
  \<open>from\<close> only, and the replacement text \<open>to\<close> is a template: \<open>$$\<close> stands for a dollar
  sign, \<open>$&\<close> for the matched text, \<open>$`\<close> for the text before the match and \<open>$'\<close> for the
  text after it. A string pattern has no capture groups, so every other \<open>$\<close> is literal.
\<close>

fun getSubstitution :: "string \<Rightarrow> string \<Rightarrow> string \<Rightarrow> string \<Rightarrow> string" where
  "getSubstitution matched pre post [] = []"
| "getSubstitution matched pre post [c] = [c]"
| "getSubstitution matched pre post (c # d # r) =
     (if c = CHR ''$'' \<and> d = CHR ''$'' then CHR ''$'' # getSubstitution matched pre post r
      else if c = CHR ''$'' \<and> d = CHR ''&'' then matched @ getSubstitution matched pre post r
      else if c = CHR ''$'' \<and> d = CHR 0x60 then pre @ getSubstitution matched pre post r
      else if c = CHR ''$'' \<and> d = quote then post @ getSubstitution matched pre post r
      else c # getSubstitution matched pre post (d # r))"

definition js_replace :: "string \<Rightarrow> string \<Rightarrow> string \<Rightarrow> string" where
  "js_replace str from to =
     (case indexOf str from of
        None \<Rightarrow> str
      | Some i \<Rightarrow>
          (let pre = take i str; post = drop (i + length from) str
           in pre @ getSubstitution from pre post to @ post))"

fun intercalate :: "string \<Rightarrow> string list \<Rightarrow> string" where
  "intercalate sep [] = []"
| "intercalate sep [x] = x"
| "intercalate sep (x # y # zs) = x @ sep @ intercalate sep (y # zs)"

subsection \<open>The two regular expressions of the source\<close>

definition isDigit :: "char \<Rightarrow> bool" where
  "isDigit c = (c \<in> set ''0123456789'')"

text \<open>
  \<open>/v\d+\.\d+\.\d+/\<close> anchored at the start of the text. Each \<open>\d+\<close> is greedy and is followed
  by a character that is no digit, so the match is determined by the maximal digit runs.
\<close>

definition match_version_here :: "string \<Rightarrow> string option" where
  "match_version_here s =
     (case s of
        [] \<Rightarrow> None
      | c # r \<Rightarrow>
          if c \<noteq> CHR ''v'' \<or> takeWhile isDigit r = [] then None
          else (case dropWhile isDigit r of
                  [] \<Rightarrow> None
                | p # r1 \<Rightarrow>
                    if p \<noteq> CHR ''.'' \<or> takeWhile isDigit r1 = [] then None
                    else (case dropWhile isDigit r1 of
                            [] \<Rightarrow> None
                          | q # r2 \<Rightarrow>
                              if q \<noteq> CHR ''.'' \<or> takeWhile isDigit r2 = [] then None
                              else Some (CHR ''v'' # takeWhile isDigit r @ CHR ''.'' #
                                         takeWhile isDigit r1 @ CHR ''.'' #
                                         takeWhile isDigit r2))))"

text \<open>\<open>stdout.match(/v\d+\.\d+\.\d+/g)\<close>, element 0: the leftmost match, \<open>None\<close> for \<open>null\<close>.\<close>

fun first_version_match :: "string \<Rightarrow> string option" where
  "first_version_match [] = None"
| "first_version_match (c # cs) =
     (case match_version_here (c # cs) of
        Some m \<Rightarrow> Some m
      | None \<Rightarrow> first_version_match cs)"

definition lineTerminator :: "char \<Rightarrow> bool" where
  "lineTerminator c = (c = CHR 0x0A \<or> c = CHR 0x0D)"

definition framework_key :: string where
  "framework_key = quote # ''framework'' @ [quote]"

text \<open>
  \<open>stdout.match(/\'framework'.+/g)\<close>: every match starts at an occurrence of the quoted
  word that is followed by at least one character of the same line, and runs to the end of
  that line. The empty list is JavaScript's \<open>null\<close>.
\<close>

function framework_line_matches :: "string \<Rightarrow> string list" where
  "framework_line_matches [] = []"
| "framework_line_matches (c # cs) =
     (let rest = drop (length framework_key) (c # cs);
          tail = takeWhile (\<lambda>x. \<not> lineTerminator x) rest
      in if prefix framework_key (c # cs) \<and> tail \<noteq> []
         then (framework_key @ tail) #
              framework_line_matches (dropWhile (\<lambda>x. \<not> lineTerminator x) rest)
         else framework_line_matches cs)"
  by pat_completeness auto
termination
proof (relation "measure length")
  show "wf (measure length)" by simp
next
  fix c :: char and cs rest tail
  assume "rest = drop (length framework_key) (c # cs)"
  then have "length (dropWhile (\<lambda>x. \<not> lineTerminator x) rest) \<le> length cs"
    using length_dropWhile_le [of "\<lambda>x. \<not> lineTerminator x" rest]
    by (simp add: framework_key_def)
  then show "(dropWhile (\<lambda>x. \<not> lineTerminator x) rest, c # cs) \<in> measure length"
    by simp
next
  fix c :: char and cs rest tail
  show "(cs, c # cs) \<in> measure length" by simp
qed

section \<open>JavaScript values\<close>

text \<open>
  The values \<open>JSON.parse\<close> produces, and \<open>undefined\<close>. A number is kept as its numeric
  value; the program only ever tests a number for being zero. An object is the list of its
  own properties in insertion order.
\<close>

datatype jsval =
    JUndefined
  | JNull
  | JBool bool
  | JNum rat
  | JStr string
  | JArr "jsval list"
  | JObj "(string \<times> jsval) list"

datatype fault =
    Error string
  | TypeError
  | URIError
  | SyntaxError
  | SystemError

text \<open>A promise as its caller sees it; \<open>Pending\<close> is a promise that never settles.\<close>

datatype 'a outcome =
    Resolved 'a
  | Rejected fault
  | Pending

fun truthy :: "jsval \<Rightarrow> bool" where
  "truthy JUndefined = False"
| "truthy JNull = False"
| "truthy (JBool b) = b"
| "truthy (JNum n) = (n \<noteq> 0)"
| "truthy (JStr s) = (s \<noteq> [])"
| "truthy (JArr xs) = True"
| "truthy (JObj kvs) = True"

text \<open>
  Reading a property \<open>v.key\<close> for the keys the source reads from parsed JSON
  (\<open>artifact\<close>, \<open>name\<close>, \<open>path\<close>, \<open>controls\<close>, \<open>tag_name\<close>, \<open>html_url\<close>, \<open>id\<close>,
  \<open>controlID\<close>, \<open>description\<close>, \<open>remediation\<close>, \<open>summaryDetails\<close>): none of them is a
  property of a built-in prototype, so only an object's own property can answer; reading
  from \<open>null\<close> or \<open>undefined\<close> throws.
\<close>

fun get_prop :: "jsval \<Rightarrow> string \<Rightarrow> fault + jsval" where
  "get_prop JUndefined key = Inl TypeError"
| "get_prop JNull key = Inl TypeError"
| "get_prop (JObj kvs) key = Inr (case map_of kvs key of None \<Rightarrow> JUndefined | Some v \<Rightarrow> v)"
| "get_prop v key = Inr JUndefined"

text \<open>
  \<open>v == "framework"\<close> (loose equality) on a value that \<open>JSON.parse\<close> returned. A text is
  compared as it is; a number, a boolean, \<open>null\<close> and \<open>undefined\<close> are never equal to the
  word. An object or an array is first converted to a primitive, and this conversion can
  throw:

  \<^item> a plain object is asked for \<open>valueOf\<close> and \<open>toString\<close>. A parsed value is never
    callable, so an own property \<open>valueOf\<close> is passed over and the inherited one answers the
    object itself, which is no primitive; an own property \<open>toString\<close> is passed over as
    well, and then nothing is left and the conversion throws TypeError. Without an own
    \<open>toString\<close> the object renders as \<open>[object Object]\<close>;
  \<^item> an array renders as its elements joined by commas, from left to right: \<open>null\<close> and
    \<open>undefined\<close> give the empty text, every other element its own rendering, which throws
    for an object with an own \<open>toString\<close> and for an array holding one.

  \<open>to_string_throws v\<close> says that rendering \<open>v\<close> throws; \<open>renders_framework v\<close> says that
  the rendering, when there is one, is the word \<open>framework\<close>: the case for the text itself
  and for an array with one element that renders as the word (the rendering of a number or a
  boolean is never the word, that of an empty array is empty, and that of a longer array has
  a comma).
\<close>

fun to_string_throws :: "jsval \<Rightarrow> bool" where
  "to_string_throws (JObj kvs) = (map_of kvs ''toString'' \<noteq> None)"
| "to_string_throws (JArr xs) = (\<exists>x \<in> set xs. to_string_throws x)"
| "to_string_throws v = False"

fun renders_framework :: "jsval \<Rightarrow> bool" where
  "renders_framework (JStr s) = (s = ''framework'')"
| "renders_framework (JArr [x]) = renders_framework x"
| "renders_framework v = False"

definition loosely_framework :: "jsval \<Rightarrow> fault + bool" where
  "loosely_framework v =
     (if to_string_throws v then Inl TypeError else Inr (renders_framework v))"

section \<open>The host\<close>

text \<open>
  What the program takes from Node.js and its libraries, as parameters: the platform, the
  environment, the \<open>path\<close> module, \<open>decodeURIComponent\<close> (\<open>None\<close> when it throws
  URIError), \<open>JSON.parse\<close> (\<open>None\<close> when it throws SyntaxError), \<open>toLocaleLowerCase\<close>, the
  \<open>compare-versions\<close> library (\<open>None\<close> when it throws on a text that is no version).
  Every theorem below holds for every host.
\<close>

record host =
  os_platform :: string
  os_arch :: string
  os_homedir :: string
  os_tmpdir :: string
  process_env :: "(string \<times> string) list"
  path_sep :: string
  path_normalize :: "string \<Rightarrow> string"
  path_join :: "string list \<Rightarrow> string"
  path_resolve :: "string list \<Rightarrow> string"
  decodeURIComponent :: "string \<Rightarrow> string option"
  JSON_parse :: "string \<Rightarrow> jsval option"
  toLocaleLowerCase :: "string \<Rightarrow> string"
  compareVersions :: "string \<Rightarrow> string \<Rightarrow> int option"

definition toJson :: "'h host_scheme \<Rightarrow> string \<Rightarrow> jsval" where
  "toJson h str = (case JSON_parse h str of Some obj \<Rightarrow> obj | None \<Rightarrow> JObj [])"

definition isWindows :: "'h host_scheme \<Rightarrow> bool" where
  "isWindows h =
     (os_platform h = ''win32'' \<or> map_of (process_env h) ''OSTYPE'' = Some ''cygwin'' \<or>
      map_of (process_env h) ''OSTYPE'' = Some ''msys'')"

section \<open>Paths\<close>

text \<open>
  \<open>expand\<close>: the loop runs over the environment's variables in the order \<open>Object.keys\<close>
  lists them; a variable whose value is the empty text is skipped.
\<close>

fun expand_env :: "(string \<times> string) list \<Rightarrow> string \<Rightarrow> string" where
  "expand_env [] expandedPath = expandedPath"
| "expand_env ((env, to) # rest) expandedPath =
     expand_env rest
       (if to = [] then expandedPath else js_replace expandedPath (CHR ''$'' # env) to)"

definition expand :: "'h host_scheme \<Rightarrow> string \<Rightarrow> string" where
  "expand h str =
     (let expandedPath = path_normalize h str
      in if length expandedPath \<le> 0 then expandedPath
         else expand_env (process_env h)
                (if hd expandedPath = CHR ''~''
                 then path_join h [os_homedir h, tl expandedPath]
                 else expandedPath))"

record KubescapePath =
  fullPath :: string
  baseDir :: string

definition getOsKubescapeFilename :: "'h host_scheme \<Rightarrow> string" where
  "getOsKubescapeFilename h = ''kubescape'' @ (if os_platform h = ''win32'' then ''.exe'' else [])"

definition getKubescapePath :: "'h host_scheme \<Rightarrow> string \<Rightarrow> fault + KubescapePath" where
  "getKubescapePath h basedir =
     (case decodeURIComponent h basedir of
        None \<Rightarrow> Inl URIError
      | Some d \<Rightarrow>
          (let decodedBaedir = path_resolve h [d]
           in Inr \<lparr>fullPath = path_join h [expand h decodedBaedir, getOsKubescapeFilename h],
                   baseDir = decodedBaedir\<rparr>))"

section \<open>The framework catalog\<close>

record KubescapeFramework =
  name :: string
  isInstalled :: bool
  location :: jsval

text \<open>
  The catalog \<open>_frameworks\<close> is a plain JavaScript object used as a dictionary: the list of
  its own properties, in insertion order, each key at most once. The test \<open>to[key]\<close> also
  sees the properties every object inherits from \<open>Object.prototype\<close>, all of them truthy.
\<close>

type_synonym catalog = "(string \<times> KubescapeFramework) list"

definition object_prototype_keys :: "string list" where
  "object_prototype_keys =
     [''constructor'', ''__defineGetter__'', ''__defineSetter__'', ''hasOwnProperty'',
      ''__lookupGetter__'', ''__lookupSetter__'', ''isPrototypeOf'', ''propertyIsEnumerable'',
      ''toString'', ''valueOf'', ''__proto__'', ''toLocaleString'']"

definition truthy_at :: "catalog \<Rightarrow> string \<Rightarrow> bool" where
  "truthy_at to key = (key \<in> fst ` set to \<or> key \<in> set object_prototype_keys)"

fun appendToFrameworks :: "catalog option \<Rightarrow> KubescapeFramework list \<Rightarrow> catalog option" where
  "appendToFrameworks to [] = to"
| "appendToFrameworks to (framework # from) =
     appendToFrameworks
       (case to of
          None \<Rightarrow> None
        | Some c \<Rightarrow> if \<not> truthy_at c (name framework) then Some (c @ [(name framework, framework)])
                    else Some c)
       from"

text \<open>
  The active-set step of \<open>setup\<close>. \<open>this._frameworks[frameworkName].isInstalled = true\<close>
  marks an own entry; for an inherited key it writes to a built-in and leaves the catalog
  as it is; for any other key it reads \<open>isInstalled\<close> of \<open>undefined\<close> and throws, the marks
  made so far staying in place. \<open>Object.keys\<close> lists the own keys (in an order that differs
  from the insertion order only for keys that are numerals, which the marking does not
  depend on).
\<close>

definition set_installed :: "string \<Rightarrow> catalog \<Rightarrow> catalog" where
  "set_installed key c = map (\<lambda>(k, f). if k = key then (k, f\<lparr>isInstalled := True\<rparr>) else (k, f)) c"

fun mark_installed :: "string list \<Rightarrow> catalog \<Rightarrow> fault option \<times> catalog" where
  "mark_installed [] c = (None, c)"
| "mark_installed (frameworkName # rest) c =
     (if frameworkName \<in> fst ` set c then mark_installed rest (set_installed frameworkName c)
      else if frameworkName \<in> set object_prototype_keys then mark_installed rest c
      else (Some TypeError, c))"

definition select_scanFrameworks :: "string list option \<Rightarrow> catalog \<Rightarrow> fault option \<times> catalog" where
  "select_scanFrameworks scanFrameworks c =
     mark_installed
       (case scanFrameworks of
          None \<Rightarrow> map fst c
        | Some l \<Rightarrow> if ''all'' \<in> set l then map fst c else l)
       c"

section \<open>The outside world\<close>

text \<open>
  Everything the program does to its surroundings is recorded as an event, in order. The
  text of a UI message is not recorded; which sink is called, and when, is. \<open>Uncaught\<close>
  records a fault that no caller can catch: an exception thrown in the callback of a
  subprocess, or the rejection of a promise nobody holds.
\<close>

datatype event =
    Ui_info
  | Ui_error
  | Ui_debug
  | Ui_progress string
  | Ui_slow string
  | Ui_fraction nat nat
  | Console_error
  | Exec string
  | Fetch string
  | Fs_mkdir string
  | Fs_access string
  | Fs_readdir string
  | Fs_readFile string
  | Fs_createWriteStream string
  | Fs_unlink string
  | Fs_chmod string
  | Fs_realpath string
  | Fs_mkdtemp string
  | Fs_rm string
  | Abort_signal
  | Uncaught fault

record exec_result =
  err :: bool
  stdout :: string
  stderr :: string

record body =
  content_length :: nat
  chunks :: "string list"
  stream_fails :: bool

record response =
  ok :: bool
  body :: "body option"

text \<open>
  The world extends the host with the answers of the surroundings: what a subprocess, a
  request or a file-system call returns may depend on everything that happened before (the
  events so far) and on its argument. \<open>fetch_o\<close> is \<open>None\<close> when the request itself fails
  (network fault, or cancellation through the abort signal); the file-system answers are
  \<open>False\<close> or \<open>None\<close> when the call fails. \<open>schedule_o\<close> is the order in which concurrently
  started subprocesses finish, \<open>uuid_o\<close> the next random identifier.
\<close>

record world = host +
  exec_o :: "event list \<Rightarrow> string \<Rightarrow> exec_result"
  fetch_o :: "event list \<Rightarrow> string \<Rightarrow> response option"
  mkdir_o :: "event list \<Rightarrow> string \<Rightarrow> bool"
  access_o :: "event list \<Rightarrow> string \<Rightarrow> bool"
  chmod_o :: "event list \<Rightarrow> string \<Rightarrow> bool"
  readdir_o :: "event list \<Rightarrow> string \<Rightarrow> string list option"
  readFile_o :: "event list \<Rightarrow> string \<Rightarrow> string option"
  realpath_o :: "event list \<Rightarrow> string \<Rightarrow> string option"
  mkdtemp_o :: "event list \<Rightarrow> string \<Rightarrow> string option"
  schedule_o :: "event list \<Rightarrow> nat list"
  uuid_o :: "event list \<Rightarrow> string"

section \<open>The orchestrator\<close>

text \<open>
  The definitions of this section and of the sections before it follow the text in
  \<open>src/unnamed/part_000\<close>, the latest of the texts the repository holds. A function that
  returns a promise is modelled as a function from the orchestrator's state to the
  outcome of the promise and the state after it.
\<close>

record KubescapeVersion =
  version :: string
  isLatest :: bool

record IKubescapeConfig =
  cfg_version :: string
  cfg_frameworksDirectory :: "string option"
  cfg_baseDirectory :: string
  cfg_requiredFrameworks :: "string list option"
  cfg_scanFrameworks :: "string list option"

text \<open>
  The private fields of the singleton \<open>KubescapeApi\<close> (an absent value is \<open>undefined\<close>),
  together with the events so far.
\<close>

record KubescapeApi =
  api_isInitialized :: bool
  api_isInstalled :: bool
  api_path :: "KubescapePath option"
  api_frameworkDir :: "string option"
  api_versionInfo :: "KubescapeVersion option"
  api_frameworks :: "catalog option"
  trace :: "event list"

definition new_KubescapeApi :: KubescapeApi where
  "new_KubescapeApi =
     \<lparr>api_isInitialized = False, api_isInstalled = False, api_path = None,
      api_frameworkDir = None, api_versionInfo = None, api_frameworks = None, trace = []\<rparr>"

definition emit :: "event \<Rightarrow> KubescapeApi \<Rightarrow> KubescapeApi" where
  "emit e s = s\<lparr>trace := trace s @ [e]\<rparr>"

definition exec :: "world \<Rightarrow> string \<Rightarrow> KubescapeApi \<Rightarrow> exec_result \<times> KubescapeApi" where
  "exec w cmd s = (exec_o w (trace s) cmd, emit (Exec cmd) s)"

definition fetch :: "world \<Rightarrow> string \<Rightarrow> KubescapeApi \<Rightarrow> response option \<times> KubescapeApi" where
  "fetch w url s = (fetch_o w (trace s) url, emit (Fetch url) s)"

definition TXT_LATEST :: string where
  "TXT_LATEST = ''latest''"

definition PACKAGE_BASE_URL :: string where
  "PACKAGE_BASE_URL = ''https://api.github.com/repos/armosec/kubescape/releases/latest''"

definition PACKAGE_DOWNLOAD_BASE_URL :: string where
  "PACKAGE_DOWNLOAD_BASE_URL = ''https://github.com/armosec/kubescape/releases/download''"

definition COMMAND_SCAN_FRAMEWORK :: string where
  "COMMAND_SCAN_FRAMEWORK = ''scan framework''"

definition COMMAND_DOWNLOAD_FRAMEWORK :: string where
  "COMMAND_DOWNLOAD_FRAMEWORK = ''download framework''"

definition COMMAND_DOWNLOAD_ARTIFACTS :: string where
  "COMMAND_DOWNLOAD_ARTIFACTS = ''download artifacts''"

definition COMMAND_GET_VERSION :: string where
  "COMMAND_GET_VERSION = ''version''"

definition COMMAND_GET_HELP :: string where
  "COMMAND_GET_HELP = ''help''"

definition ERROR_KUBESCAPE_NOT_INSTALLED :: string where
  "ERROR_KUBESCAPE_NOT_INSTALLED = ''Kubescape is not installed!''"

definition dq :: char where
  "dq = CHR 0x22"

subsection \<open>Getters\<close>

definition get_path :: "KubescapeApi \<Rightarrow> fault + string" where
  "get_path s =
     (case api_path s of
        None \<Rightarrow> Inl (Error ERROR_KUBESCAPE_NOT_INSTALLED)
      | Some p \<Rightarrow> Inr (fullPath p))"

text \<open>\<open>directory\<close> reads \<open>this._path.baseDir\<close> before any test, so an unset path is a TypeError.\<close>

definition get_directory :: "KubescapeApi \<Rightarrow> fault + string" where
  "get_directory s =
     (case api_path s of
        None \<Rightarrow> Inl TypeError
      | Some p \<Rightarrow> if baseDir p = [] then Inl (Error ERROR_KUBESCAPE_NOT_INSTALLED)
                  else Inr (baseDir p))"

definition get_version :: "KubescapeApi \<Rightarrow> fault + string" where
  "get_version s =
     (case api_versionInfo s of
        None \<Rightarrow> Inl (Error ERROR_KUBESCAPE_NOT_INSTALLED)
      | Some v \<Rightarrow> Inr (version v))"

definition get_frameworkDirectory :: "KubescapeApi \<Rightarrow> fault + string" where
  "get_frameworkDirectory s =
     (case api_frameworkDir s of
        None \<Rightarrow> Inl (Error ERROR_KUBESCAPE_NOT_INSTALLED)
      | Some d \<Rightarrow> if d = [] then Inl (Error ERROR_KUBESCAPE_NOT_INSTALLED) else Inr d)"

definition get_frameworksNames :: "KubescapeApi \<Rightarrow> string list" where
  "get_frameworksNames s =
     (case api_frameworks s of
        None \<Rightarrow> []
      | Some c \<Rightarrow> map fst (filter (\<lambda>(k, f). isInstalled f) c))"

subsection \<open>Command lines\<close>

text \<open>
  An argument value is a boolean or a text (the values the source itself passes; the
  override arguments of a caller are taken to be of these two kinds).
\<close>

datatype argval = ArgBool bool | ArgStr string

fun append_args :: "(string \<times> argval) list \<Rightarrow> string \<Rightarrow> string" where
  "append_args [] kubescapeCommand = kubescapeCommand"
| "append_args ((key, ArgBool True) # rest) kubescapeCommand =
     append_args rest (kubescapeCommand @ '' --'' @ key)"
| "append_args ((key, ArgBool False) # rest) kubescapeCommand =
     append_args rest (kubescapeCommand @ '' --'' @ key @ '' false'')"
| "append_args ((key, ArgStr v) # rest) kubescapeCommand =
     append_args rest (kubescapeCommand @ '' --'' @ key @ '' '' @ v)"

definition buildKubescapeCommand ::
  "world \<Rightarrow> KubescapeApi \<Rightarrow> string \<Rightarrow> string option \<Rightarrow> (string \<times> argval) list option \<Rightarrow>
   fault + string" where
  "buildKubescapeCommand w s command kubeconfigPath args =
     (case get_path s of
        Inl e \<Rightarrow> Inl e
      | Inr p \<Rightarrow>
          (let c0 = dq # p @ dq # CHR '' '' # command;
               c1 = (case kubeconfigPath of
                       None \<Rightarrow> c0
                     | Some k \<Rightarrow>
                         if isWindows w
                         then ''set '' @ dq # ''KUBECONFIG='' @ k @ dq # '' & '' @ c0
                         else ''KUBECONFIG='' @ dq # k @ dq # CHR '' '' # c0)
           in Inr (case args of None \<Rightarrow> c1 | Some a \<Rightarrow> append_args a c1)))"

subsection \<open>Release registry\<close>

text \<open>
  \<open>res.json()\<close>: the body is read to its end and parsed; a missing body reads as the empty
  text.
\<close>

definition response_json :: "world \<Rightarrow> response \<Rightarrow> fault + jsval" where
  "response_json w res =
     (case body res of
        None \<Rightarrow> (case JSON_parse w [] of None \<Rightarrow> Inl SyntaxError | Some v \<Rightarrow> Inr v)
      | Some b \<Rightarrow>
          if stream_fails b then Inl SystemError
          else (case JSON_parse w (concat (chunks b)) of
                  None \<Rightarrow> Inl SyntaxError
                | Some v \<Rightarrow> Inr v))"

definition getLatestVersionUrl :: "world \<Rightarrow> KubescapeApi \<Rightarrow> string outcome \<times> KubescapeApi" where
  "getLatestVersionUrl w s =
     (let (r, s1) = fetch w PACKAGE_BASE_URL s
      in case r of
           None \<Rightarrow> (Rejected SystemError, s1)
         | Some res \<Rightarrow>
             (case response_json w res of
                Inl e \<Rightarrow> (Rejected e, s1)
              | Inr obj \<Rightarrow>
                  (case get_prop obj ''html_url'' of
                     Inl e \<Rightarrow> (Rejected e, s1)
                   | Inr (JStr u) \<Rightarrow> (Resolved (js_replace u ''/tag/'' ''/download/''), s1)
                   | Inr _ \<Rightarrow> (Rejected TypeError, s1))))"

definition getLatestVersion :: "world \<Rightarrow> KubescapeApi \<Rightarrow> jsval outcome \<times> KubescapeApi" where
  "getLatestVersion w s =
     (let (r, s1) = fetch w PACKAGE_BASE_URL s
      in case r of
           None \<Rightarrow> (Rejected SystemError, s1)
         | Some res \<Rightarrow>
             (case response_json w res of
                Inl e \<Rightarrow> (Rejected e, s1)
              | Inr obj \<Rightarrow>
                  (case get_prop obj ''tag_name'' of
                     Inl e \<Rightarrow> (Rejected e, s1)
                   | Inr t \<Rightarrow> (Resolved t, s1))))"

subsection \<open>Downloader\<close>

text \<open>
  \<open>progress(read / size)\<close> for every chunk of the body, where the denominator is the announced
  content length; the fraction is recorded as the pair of its numerator and denominator.
\<close>

fun report_chunks :: "nat \<Rightarrow> nat \<Rightarrow> string list \<Rightarrow> KubescapeApi \<Rightarrow> KubescapeApi" where
  "report_chunks announced read [] s = s"
| "report_chunks announced read (chunk # rest) s =
     report_chunks announced (read + length chunk) rest
       (emit (Ui_fraction (read + length chunk) announced) s)"

text \<open>
  The work that \<open>downloadFile\<close> hands to \<open>ui.progress\<close>. The result is \<open>True\<close> when the
  work completes and \<open>False\<close> when it throws. \<open>ui.progress\<close> is taken to run the work it is
  given once and to return what the work returns, and the message sinks of the UI to
  return normally, as the interface of the UI documents.
\<close>

definition download_work ::
  "world \<Rightarrow> string \<Rightarrow> string \<Rightarrow> string \<Rightarrow> bool \<Rightarrow> KubescapeApi \<Rightarrow> bool \<times> KubescapeApi" where
  "download_work w url decodedTargetDir localPath executable s =
     (let s1 = emit Ui_debug (emit Ui_debug s);
          s2 = emit (Fs_mkdir decodedTargetDir) s1
      in if \<not> mkdir_o w (trace s1) decodedTargetDir then (False, s2)
         else
           (let (r, s3) = fetch w url s2
            in case r of
                 None \<Rightarrow> (False, s3)
               | Some response \<Rightarrow>
                   (case (if ok response then body response else None) of
                      None \<Rightarrow> (False, emit Ui_error s3)
                    | Some b \<Rightarrow>
                        (let s4 = emit Ui_debug s3;
                             s5 = emit (Fs_createWriteStream localPath) s4;
                             s6 = report_chunks (content_length b) 0 (chunks b) s5
                         in if stream_fails b then (False, emit (Fs_unlink localPath) s6)
                            else if executable
                            then (if chmod_o w (trace s6) localPath
                                  then (True, emit Ui_info (emit (Fs_chmod localPath) s6))
                                  else (False, emit (Fs_chmod localPath) s6))
                            else (True, emit Ui_info s6)))))"

text \<open>
  \<open>downloadFile\<close>: the directory is decoded and the local path resolved before the \<open>try\<close>
  block is entered; the \<open>finally\<close> block returns the local path, which the \<open>catch\<close> block
  has emptied.
\<close>

definition downloadFile ::
  "world \<Rightarrow> string \<Rightarrow> string \<Rightarrow> string \<Rightarrow> bool \<Rightarrow> bool \<Rightarrow> KubescapeApi \<Rightarrow>
   string outcome \<times> KubescapeApi" where
  "downloadFile w url downloadDir fileName abort executable s =
     (case decodeURIComponent w downloadDir of
        None \<Rightarrow> (Rejected URIError, s)
      | Some decodedTargetDir \<Rightarrow>
          (let localPath = path_resolve w [decodedTargetDir, fileName];
               (done, s1) = download_work w url decodedTargetDir localPath executable
                              (emit (Ui_progress ''Downloading Kubescape'') s)
           in if done then (Resolved localPath, s1) else (Resolved [], emit Ui_error s1)))"

definition chooseKubescapeAsset :: "'h host_scheme \<Rightarrow> string option" where
  "chooseKubescapeAsset h =
     (let prefix = ''kubescape'' @ (if os_arch h = ''arm64'' then ''-arm64'' else [])
      in if os_platform h = ''linux'' then Some (prefix @ ''-ubuntu-latest'')
         else if os_platform h = ''darwin'' then Some (prefix @ ''-macos-latest'')
         else if os_platform h = ''win32'' then Some (prefix @ ''.exe'')
         else None)"

text \<open>An asset name that is \<open>undefined\<close> is interpolated into the URL as that word.\<close>

definition install ::
  "world \<Rightarrow> string \<Rightarrow> string \<Rightarrow> bool \<Rightarrow> KubescapeApi \<Rightarrow> bool outcome \<times> KubescapeApi" where
  "install w ver kubescapeDir cancel s =
     (let (u, s1) = (if ver = TXT_LATEST then getLatestVersionUrl w s
                     else (Resolved (PACKAGE_DOWNLOAD_BASE_URL @ ''/'' @ ver), s))
      in case u of
           Rejected e \<Rightarrow> (Rejected e, s1)
         | Pending \<Rightarrow> (Pending, s1)
         | Resolved url \<Rightarrow>
             (let binaryUrl = url @ ''/'' @
                    (case chooseKubescapeAsset w of None \<Rightarrow> ''undefined'' | Some a \<Rightarrow> a);
                  (r, s2) = downloadFile w binaryUrl kubescapeDir (getOsKubescapeFilename w)
                              cancel (\<not> isWindows w) s1
              in case r of
                   Resolved kubescapeFullPath \<Rightarrow> (Resolved (length kubescapeFullPath > 0), s2)
                 | Rejected e \<Rightarrow> (Rejected e, s2)
                 | Pending \<Rightarrow> (Pending, s2)))"

subsection \<open>Version detector\<close>

definition isKubescapeInstalled :: "world \<Rightarrow> string \<Rightarrow> KubescapeApi \<Rightarrow> bool \<times> KubescapeApi" where
  "isKubescapeInstalled w kubescapePath s =
     (let (r, s1) = exec w (dq # kubescapePath @ dq # CHR '' '' # COMMAND_GET_HELP) s
      in if err r then (False, emit Console_error s1) else (True, s1))"

text \<open>
  \<open>getKubescapeVersion(kind)\<close>. The callback of the subprocess is an \<open>async\<close> function
  inside \<open>new Promise\<close>: when it throws, or when a promise it awaits rejects, nothing
  settles the promise that was returned, and the fault surfaces as an unhandled rejection.
\<close>

definition getKubescapeVersion ::
  "world \<Rightarrow> string \<Rightarrow> KubescapeApi \<Rightarrow> KubescapeVersion outcome \<times> KubescapeApi" where
  "getKubescapeVersion w kind s =
     (if \<not> api_isInstalled s then (Rejected (Error ERROR_KUBESCAPE_NOT_INSTALLED), s)
      else
        (case buildKubescapeCommand w s COMMAND_GET_VERSION None None of
           Inl e \<Rightarrow> (Rejected e, s)
         | Inr cmd \<Rightarrow>
             (let (r, s1) = exec w cmd s
              in if err r then (Pending, emit (Uncaught (Error (stderr r))) s1)
                 else
                   (case first_version_match (stdout r) of
                      None \<Rightarrow> (Resolved \<lparr>version = ''unknown'', isLatest = True\<rparr>, s1)
                    | Some m \<Rightarrow>
                        if kind = ''latest''
                        then (case getLatestVersion w s1 of
                                (Resolved latestVersion, s2) \<Rightarrow>
                                  (Resolved \<lparr>version = m, isLatest = (latestVersion = JStr m)\<rparr>, s2)
                              | (Rejected e, s2) \<Rightarrow> (Pending, emit (Uncaught e) s2)
                              | (Pending, s2) \<Rightarrow> (Pending, s2))
                        else (Resolved \<lparr>version = m, isLatest = False\<rparr>, s1)))))"

subsection \<open>Parsing the output of the download subcommands\<close>

definition extractBetween :: "string \<Rightarrow> string \<Rightarrow> string" where
  "extractBetween str surround =
     substring str (js_index (indexOf str surround) + 1) (js_index (lastIndexOf str surround))"

text \<open>\<open>parts[1]\<close> or \<open>parts[2]\<close> is \<open>undefined\<close> when the text has fewer than two colons.\<close>

definition resolveKubescapeFramework :: "'h host_scheme \<Rightarrow> string \<Rightarrow> fault + KubescapeFramework" where
  "resolveKubescapeFramework h frameworkOutput =
     (case js_split '':'' frameworkOutput of
        p0 # p1 # p2 # rest \<Rightarrow>
          Inr \<lparr>name = toLocaleLowerCase h (extractBetween p1 [quote]),
               isInstalled = False,
               location = JStr (extractBetween p2 [quote])\<rparr>
      | _ \<Rightarrow> Inl TypeError)"

fun resolveKubescapeFrameworks ::
  "'h host_scheme \<Rightarrow> string list \<Rightarrow> fault + KubescapeFramework list" where
  "resolveKubescapeFrameworks h [] = Inr []"
| "resolveKubescapeFrameworks h (frameworkOutput # rest) =
     (case resolveKubescapeFramework h frameworkOutput of
        Inl e \<Rightarrow> Inl e
      | Inr f \<Rightarrow>
          (case resolveKubescapeFrameworks h rest of
             Inl e \<Rightarrow> Inl e
           | Inr fs \<Rightarrow> Inr (f # fs)))"

text \<open>
  The object built from a parsed JSON value \<open>info\<close>:
  \<open>{name: info.name.toLocaleLowerCase(), location: info.path, isInstalled: false}\<close>. Only a
  text has the method \<open>toLocaleLowerCase\<close>.
\<close>

definition framework_of_info :: "'h host_scheme \<Rightarrow> jsval \<Rightarrow> fault + KubescapeFramework" where
  "framework_of_info h info =
     (case get_prop info ''name'' of
        Inl e \<Rightarrow> Inl e
      | Inr (JStr n) \<Rightarrow>
          (case get_prop info ''path'' of
             Inl e \<Rightarrow> Inl e
           | Inr p \<Rightarrow> Inr \<lparr>name = toLocaleLowerCase h n, isInstalled = False, location = p\<rparr>)
      | Inr _ \<Rightarrow> Inl TypeError)"

text \<open>
  The body of \<open>output.forEach\<close> in \<open>downloadAllFrameworks\<close>, line by line. A fault thrown
  for one line (by reading \<open>artifact\<close> from \<open>null\<close>, by the comparison, or by building the
  entry) leaves the loop, and the lines after it are not read.
\<close>

fun json_lines_frameworks :: "'h host_scheme \<Rightarrow> string list \<Rightarrow> fault + KubescapeFramework list" where
  "json_lines_frameworks h [] = Inr []"
| "json_lines_frameworks h (line # rest) =
     (case get_prop (toJson h line) ''artifact'' of
        Inl e \<Rightarrow> Inl e
      | Inr a \<Rightarrow>
          (case loosely_framework a of
             Inl e \<Rightarrow> Inl e
           | Inr True \<Rightarrow>
               (case framework_of_info h (toJson h line) of
                  Inl e \<Rightarrow> Inl e
                | Inr f \<Rightarrow>
                    (case json_lines_frameworks h rest of
                       Inl e \<Rightarrow> Inl e
                     | Inr fs \<Rightarrow> Inr (f # fs)))
           | Inr False \<Rightarrow> json_lines_frameworks h rest))"

definition invalid_version :: fault where
  "invalid_version = Error ''Invalid argument not valid semver''"

text \<open>
  What the callback of one selective download computes from the detected version and the
  two output streams (\<open>Inl\<close> when it throws).
\<close>

definition parse_downloaded_framework ::
  "'h host_scheme \<Rightarrow> fault + string \<Rightarrow> string \<Rightarrow> string \<Rightarrow> string \<Rightarrow> fault + KubescapeFramework" where
  "parse_downloaded_framework h ver framework out errout =
     (case ver of
        Inl e \<Rightarrow> Inl e
      | Inr v \<Rightarrow>
          (case compareVersions h v ''v2.0.150'' of
             None \<Rightarrow> Inl invalid_version
           | Some c \<Rightarrow>
               if c \<ge> 0 then framework_of_info h (toJson h errout)
               else resolveKubescapeFramework h
                      (js_replace out framework_key
                         (framework_key @ '': '' @ quote # framework @ [quote]))))"

text \<open>What the callback of the bulk download computes.\<close>

definition parse_all_frameworks ::
  "'h host_scheme \<Rightarrow> fault + string \<Rightarrow> string \<Rightarrow> string \<Rightarrow> fault + KubescapeFramework list" where
  "parse_all_frameworks h ver out errout =
     (case ver of
        Inl e \<Rightarrow> Inl e
      | Inr v \<Rightarrow>
          (case compareVersions h v ''v2.0.150'' of
             None \<Rightarrow> Inl invalid_version
           | Some c \<Rightarrow>
               if c \<ge> 0 \<or> framework_line_matches out = []
               then json_lines_frameworks h (js_split [newline] errout)
               else resolveKubescapeFrameworks h (framework_line_matches out)))"

subsection \<open>Selective download\<close>

text \<open>
  One promise of \<open>downloadMissingFrameworks\<close>. The executor builds the command and starts
  the subprocess; a fault thrown by the executor rejects the promise. The callback calls
  \<open>reject\<close> on a failed subprocess and then goes on to parse the output all the same; a
  fault thrown while parsing is an uncaught exception and settles nothing.
\<close>

definition download_command :: "world \<Rightarrow> KubescapeApi \<Rightarrow> string \<Rightarrow> fault + string" where
  "download_command w s framework =
     (case get_frameworkDirectory s of
        Inl e \<Rightarrow> Inl e
      | Inr dir \<Rightarrow>
          buildKubescapeCommand w s
            (COMMAND_DOWNLOAD_FRAMEWORK @ '' '' @ framework @ '' -o '' @ dq # dir @ [dq])
            None None)"

fun start_downloads ::
  "world \<Rightarrow> string list \<Rightarrow> KubescapeApi \<Rightarrow> (string \<times> (fault + exec_result)) list \<times> KubescapeApi" where
  "start_downloads w [] s = ([], s)"
| "start_downloads w (framework # rest) s =
     (case download_command w s framework of
        Inl e \<Rightarrow>
          (let (rs, s') = start_downloads w rest s in ((framework, Inl e) # rs, s'))
      | Inr cmd \<Rightarrow>
          (let (r, s1) = exec w cmd (emit Ui_debug s);
               (rs, s') = start_downloads w rest s1
           in ((framework, Inr r) # rs, s')))"

definition download_failed :: "string \<Rightarrow> string \<Rightarrow> fault" where
  "download_failed framework errout =
     Error (''Could not download framework '' @ framework @ ''. Reason:'' @ newline # errout)"

definition download_callback ::
  "world \<Rightarrow> KubescapeApi \<Rightarrow> string \<Rightarrow> exec_result \<Rightarrow> KubescapeFramework outcome \<times> event list" where
  "download_callback w s framework r =
     (case parse_downloaded_framework w (get_version s) framework (stdout r) (stderr r) of
        Inl e \<Rightarrow>
          (if err r then Rejected (download_failed framework (stderr r)) else Pending,
           [Ui_debug, Uncaught e])
      | Inr f \<Rightarrow>
          (if err r then Rejected (download_failed framework (stderr r)) else Resolved f,
           [Ui_debug]))"

definition settle_download ::
  "world \<Rightarrow> KubescapeApi \<Rightarrow> string \<times> (fault + exec_result) \<Rightarrow>
   KubescapeFramework outcome \<times> event list" where
  "settle_download w s p =
     (case snd p of
        Inl e \<Rightarrow> (Rejected e, [])
      | Inr r \<Rightarrow> download_callback w s (fst p) r)"

text \<open>
  \<open>Promise.all\<close>: it rejects with the reason of the promise that rejects first, resolves
  with all values in request order when every promise resolves, and stays pending
  otherwise. \<open>order\<close> lists the positions of the promises in the order they settle.
\<close>

fun rejection :: "'a outcome \<Rightarrow> fault option" where
  "rejection (Rejected e) = Some e"
| "rejection r = None"

fun resolved_values :: "'a outcome list \<Rightarrow> 'a list option" where
  "resolved_values [] = Some []"
| "resolved_values (Resolved v # rs) = map_option ((#) v) (resolved_values rs)"
| "resolved_values (r # rs) = None"

definition promise_all :: "nat list \<Rightarrow> 'a outcome list \<Rightarrow> 'a list outcome" where
  "promise_all order rs =
     (case List.map_filter (\<lambda>i. if i < length rs then rejection (rs ! i) else None) order of
        e # es \<Rightarrow> Rejected e
      | [] \<Rightarrow> (case resolved_values rs of Some vs \<Rightarrow> Resolved vs | None \<Rightarrow> Pending))"

text \<open>
  The order in which \<open>n\<close> promises settle: those whose executor threw are rejected at once,
  in request order; the subprocesses of the others finish as the world schedules them (a
  position the schedule does not mention finishes last).
\<close>

definition completion_order :: "nat \<Rightarrow> nat list \<Rightarrow> nat list" where
  "completion_order n sched =
     remdups (filter (\<lambda>i. i < n) sched) @ filter (\<lambda>i. i \<notin> set sched) [0..<n]"

definition settle_order :: "(string \<times> (fault + exec_result)) list \<Rightarrow> nat list \<Rightarrow> nat list" where
  "settle_order started sched =
     filter (\<lambda>i. isl (snd (started ! i))) [0..<length started] @
     filter (\<lambda>i. \<not> isl (snd (started ! i))) (completion_order (length started) sched)"

definition downloadMissingFrameworks ::
  "world \<Rightarrow> string list \<Rightarrow> KubescapeApi \<Rightarrow> KubescapeFramework list outcome \<times> KubescapeApi" where
  "downloadMissingFrameworks w requiredFrameworks s =
     (let (started, s1) = start_downloads w requiredFrameworks s;
          order = settle_order started (schedule_o w (trace s1));
          settled = map (settle_download w s1) started
      in (promise_all order (map fst settled),
          s1\<lparr>trace := trace s1 @ concat (map (\<lambda>i. snd (settled ! i)) order)\<rparr>))"

text \<open>
  \<open>installFrameworks\<close>: the first loop marks the requested frameworks the catalog already
  has and collects the others; the merge is reached only when the awaited download
  resolves.
\<close>

fun frameworksNeedsDownload :: "string list \<Rightarrow> catalog option \<Rightarrow> string list \<times> catalog option" where
  "frameworksNeedsDownload [] fws = ([], fws)"
| "frameworksNeedsDownload (framework # rest) fws =
     (case fws of
        None \<Rightarrow> (let (l, fws') = frameworksNeedsDownload rest fws in (framework # l, fws'))
      | Some c \<Rightarrow>
          if framework \<in> fst ` set c
          then frameworksNeedsDownload rest (Some (set_installed framework c))
          else if framework \<in> set object_prototype_keys
          then frameworksNeedsDownload rest fws
          else (let (l, fws') = frameworksNeedsDownload rest fws in (framework # l, fws')))"

definition installFrameworks ::
  "world \<Rightarrow> string list \<Rightarrow> KubescapeApi \<Rightarrow> unit outcome \<times> KubescapeApi" where
  "installFrameworks w frameworks s =
     (let (needed, fws) = frameworksNeedsDownload frameworks (api_frameworks s);
          s1 = s\<lparr>api_frameworks := fws\<rparr>
      in if length needed > 0
         then (case downloadMissingFrameworks w needed s1 of
                 (Resolved newInstalledFrameworks, s2) \<Rightarrow>
                   (let s3 = emit Ui_debug s2
                    in (Resolved (),
                        s3\<lparr>api_frameworks :=
                             appendToFrameworks (api_frameworks s3) newInstalledFrameworks\<rparr>))
               | (Rejected e, s2) \<Rightarrow> (Rejected e, s2)
               | (Pending, s2) \<Rightarrow> (Pending, s2))
         else (Resolved (), s1))"

subsection \<open>Bulk download\<close>

definition downloadAllFrameworks ::
  "world \<Rightarrow> KubescapeApi \<Rightarrow> KubescapeFramework list outcome \<times> KubescapeApi" where
  "downloadAllFrameworks w s =
     (case get_frameworkDirectory s of
        Inl e \<Rightarrow> (Rejected e, s)
      | Inr dir \<Rightarrow>
          (case buildKubescapeCommand w s
                  (COMMAND_DOWNLOAD_ARTIFACTS @ '' --output '' @ dq # dir @ [dq]) None None of
             Inl e \<Rightarrow> (Rejected e, s)
           | Inr cmd \<Rightarrow>
               (let (r, s1) = exec w cmd (emit Ui_debug s)
                in case get_version s1 of
                     Inl e \<Rightarrow> (Pending, emit (Uncaught e) s1)
                   | Inr v \<Rightarrow>
                       (let s2 = emit Ui_debug s1
                        in if err r
                           then (Pending,
                                 emit (Uncaught (Error (''Unable to download artifacts:'' @
                                                        newline # stderr r))) s2)
                           else (case parse_all_frameworks w (Inr v) (stdout r) (stderr r) of
                                   Inl e \<Rightarrow> (Pending, emit (Uncaught e) s2)
                                 | Inr ksFrameworks \<Rightarrow> (Resolved ksFrameworks, s2))))))"

subsection \<open>Frameworks on disk\<close>

text \<open>
  The filter of \<open>getInstalledFrameworks\<close>: a file counts when its name ends in \<open>.json\<close>, it
  can be read, and its parsed content has a truthy \<open>controls\<close>; every fault inside the
  \<open>try\<close> block makes the file not count.
\<close>

definition has_controls :: "'h host_scheme \<Rightarrow> string \<Rightarrow> bool" where
  "has_controls h f_text =
     (case get_prop (toJson h f_text) ''controls'' of
        Inl e \<Rightarrow> False
      | Inr v \<Rightarrow> truthy v)"

fun framework_files :: "world \<Rightarrow> string \<Rightarrow> string list \<Rightarrow> KubescapeApi \<Rightarrow> string list \<times> KubescapeApi" where
  "framework_files w dir [] s = ([], s)"
| "framework_files w dir (file # rest) s =
     (if suffix ''.json'' file
      then (case decodeURIComponent w (path_join w [dir, file]) of
              None \<Rightarrow> framework_files w dir rest s
            | Some p \<Rightarrow>
                (case readFile_o w (trace s) p of
                   None \<Rightarrow> framework_files w dir rest (emit (Fs_readFile p) s)
                 | Some f_text \<Rightarrow>
                     (let (l, s') = framework_files w dir rest (emit (Fs_readFile p) s)
                      in (if has_controls w f_text then file # l else l, s'))))
      else framework_files w dir rest s)"

text \<open>\<open>frameworkFile.split('.json')[0]\<close>: the text before the first \<open>.json\<close>.\<close>

definition before_json :: "string \<Rightarrow> string" where
  "before_json frameworkFile =
     (case js_split ''.json'' frameworkFile of [] \<Rightarrow> [] | x # xs \<Rightarrow> x)"

definition getInstalledFrameworks ::
  "world \<Rightarrow> KubescapeApi \<Rightarrow> KubescapeFramework list outcome \<times> KubescapeApi" where
  "getInstalledFrameworks w s =
     (case get_frameworkDirectory s of
        Inl e \<Rightarrow> (Rejected e, s)
      | Inr dir \<Rightarrow>
          (case readdir_o w (trace s) dir of
             None \<Rightarrow> (Rejected SystemError, emit (Fs_readdir dir) s)
           | Some files \<Rightarrow>
               (let (frameworkFiles, s1) = framework_files w dir files (emit (Fs_readdir dir) s)
                in (Resolved
                      (map (\<lambda>frameworkFile.
                              \<lparr>name = toLocaleLowerCase w (before_json frameworkFile),
                               isInstalled = False,
                               location = JStr (expand w (path_join w [dir, frameworkFile]))\<rparr>)
                         frameworkFiles),
                    s1))))"

subsection \<open>Setup\<close>

text \<open>
  Steps 2 and 3 of \<open>setup\<close>: the installation probe and the version reconciliation. The
  result is the value of \<open>needsUpdate\<close> after step 3.
\<close>

definition reconcile_version ::
  "world \<Rightarrow> IKubescapeConfig \<Rightarrow> KubescapeApi \<Rightarrow> bool outcome \<times> KubescapeApi" where
  "reconcile_version w configs s =
     (case get_path s of
        Inl e \<Rightarrow> (Rejected e, s)
      | Inr p \<Rightarrow>
          (let (installed, s1) = isKubescapeInstalled w p s;
               s2 = emit (Ui_fraction 2 5) (emit Ui_debug (s1\<lparr>api_isInstalled := installed\<rparr>));
               s3 = emit Ui_debug s2
           in if \<not> api_isInstalled s3 then (Resolved True, emit (Ui_fraction 3 5) s3)
              else
                (case getKubescapeVersion w (cfg_version configs) s3 of
                   (Rejected e, s4) \<Rightarrow> (Rejected e, s4)
                 | (Pending, s4) \<Rightarrow> (Pending, s4)
                 | (Resolved v, s4) \<Rightarrow>
                     (let s5 = s4\<lparr>api_versionInfo := Some v\<rparr>
                      in if cfg_version configs \<noteq> version v
                         then (if cfg_version configs = TXT_LATEST
                               then (case getLatestVersion w s5 of
                                       (Rejected e, s6) \<Rightarrow> (Rejected e, s6)
                                     | (Pending, s6) \<Rightarrow> (Pending, s6)
                                     | (Resolved latestVersionTag, s6) \<Rightarrow>
                                         (Resolved (latestVersionTag \<noteq> JStr (version v)),
                                          emit (Ui_fraction 3 5) s6))
                               else (Resolved True, emit (Ui_fraction 3 5) s5))
                         else (Resolved False, emit (Ui_fraction 3 5) s5)))))"

text \<open>
  Step 4. The result \<open>Resolved False\<close> is the early \<open>return false\<close>; \<open>Resolved True\<close> lets
  \<open>setup\<close> go on. \<open>abort\<close> tells whether the caller passed an abort controller:
  \<open>abort.abort()\<close> on \<open>undefined\<close> throws.
\<close>

definition install_if_needed ::
  "world \<Rightarrow> IKubescapeConfig \<Rightarrow> bool \<Rightarrow> bool \<Rightarrow> KubescapeApi \<Rightarrow> bool outcome \<times> KubescapeApi" where
  "install_if_needed w configs abort needsUpdate s =
     (if needsUpdate
      then (case get_directory (emit Ui_debug s) of
              Inl e \<Rightarrow> (Rejected e, emit Ui_debug s)
            | Inr dir \<Rightarrow>
                (case install w (cfg_version configs) dir abort (emit Ui_debug s) of
                   (Rejected e, s1) \<Rightarrow> (Rejected e, s1)
                 | (Pending, s1) \<Rightarrow> (Pending, s1)
                 | (Resolved installed, s1) \<Rightarrow>
                     (let s2 = s1\<lparr>api_isInstalled := installed\<rparr>
                      in if \<not> installed
                         then (if abort then (Resolved False, emit Abort_signal (emit Ui_error s2))
                               else (Rejected TypeError, emit Ui_error s2))
                         else (case getKubescapeVersion w (cfg_version configs) s2 of
                                 (Rejected e, s3) \<Rightarrow> (Rejected e, s3)
                               | (Pending, s3) \<Rightarrow> (Pending, s3)
                               | (Resolved v, s3) \<Rightarrow>
                                   (Resolved True, s3\<lparr>api_versionInfo := Some v\<rparr>)))))
      else (Resolved True, s))"

text \<open>
  The choice of the framework directory. \<open>Inl\<close> is a fault thrown outside the \<open>try\<close>
  block (by \<open>decodeURIComponent\<close>, or by the \<open>directory\<close> getter of the fallback).
\<close>

definition choose_frameworkDir ::
  "world \<Rightarrow> IKubescapeConfig \<Rightarrow> KubescapeApi \<Rightarrow> fault option \<times> KubescapeApi" where
  "choose_frameworkDir w configs s =
     (case (case cfg_frameworksDirectory configs of
              None \<Rightarrow> Inr s
            | Some d \<Rightarrow>
                if d = [] then Inr s
                else (case decodeURIComponent w (expand w (path_resolve w [d])) of
                        None \<Rightarrow> Inl URIError
                      | Some d' \<Rightarrow> Inr (s\<lparr>api_frameworkDir := Some d'\<rparr>))) of
        Inl e \<Rightarrow> (Some e, s)
      | Inr s1 \<Rightarrow>
          (case (case api_frameworkDir s1 of None \<Rightarrow> None | Some d \<Rightarrow> if d = [] then None else Some d) of
             Some dir \<Rightarrow>
               (let s2 = emit (Fs_mkdir dir) (emit Ui_debug s1)
                in if \<not> mkdir_o w (trace (emit Ui_debug s1)) dir
                   then (case get_directory s2 of
                           Inl e \<Rightarrow> (Some e, emit Ui_info s2)
                         | Inr fallback \<Rightarrow> (None, (emit Ui_info s2)\<lparr>api_frameworkDir := Some fallback\<rparr>))
                   else if \<not> access_o w (trace s2) dir
                   then (case get_directory s2 of
                           Inl e \<Rightarrow> (Some e, emit Ui_info (emit (Fs_access dir) s2))
                         | Inr fallback \<Rightarrow>
                             (None, (emit Ui_info (emit (Fs_access dir) s2))
                                       \<lparr>api_frameworkDir := Some fallback\<rparr>))
                   else (None, emit (Fs_access dir) s2))
           | None \<Rightarrow>
               (case get_directory s1 of
                  Inl e \<Rightarrow> (Some e, emit Ui_debug s1)
                | Inr fallback \<Rightarrow> (None, (emit Ui_debug s1)\<lparr>api_frameworkDir := Some fallback\<rparr>))))"

text \<open>The provisioning of the required frameworks.\<close>

definition require_frameworks ::
  "world \<Rightarrow> IKubescapeConfig \<Rightarrow> KubescapeApi \<Rightarrow> unit outcome \<times> KubescapeApi" where
  "require_frameworks w configs s =
     (case (case cfg_requiredFrameworks configs of
              None \<Rightarrow> None
            | Some l \<Rightarrow> if ''all'' \<in> set l then None else Some l) of
        Some l \<Rightarrow>
          (let s1 = emit Ui_debug s;
               missing = filter (\<lambda>framework.
                            case api_frameworks s1 of
                              None \<Rightarrow> True
                            | Some c \<Rightarrow> \<not> truthy_at c framework) l
           in if length missing > 0 then installFrameworks w missing s1 else (Resolved (), s1))
      | None \<Rightarrow>
          (case downloadAllFrameworks w (emit Ui_debug s) of
             (Rejected e, s1) \<Rightarrow> (Rejected e, s1)
           | (Pending, s1) \<Rightarrow> (Pending, s1)
           | (Resolved allFrameworks, s1) \<Rightarrow>
               (Resolved (), s1\<lparr>api_frameworks := appendToFrameworks (api_frameworks s1) allFrameworks\<rparr>)))"

text \<open>
  Step 5, from \<open>this._frameworks = {}\<close> to the active-set step. In the active-set step the
  catalog is an object, as it was set to one at the start of this step.
\<close>

definition initialize_frameworks ::
  "world \<Rightarrow> IKubescapeConfig \<Rightarrow> KubescapeApi \<Rightarrow> unit outcome \<times> KubescapeApi" where
  "initialize_frameworks w configs s =
     (case choose_frameworkDir w configs ((emit Ui_debug s)\<lparr>api_frameworks := Some []\<rparr>) of
        (Some e, s1) \<Rightarrow> (Rejected e, s1)
      | (None, s1) \<Rightarrow>
          (case getInstalledFrameworks w s1 of
             (Rejected e, s2) \<Rightarrow> (Rejected e, s2)
           | (Pending, s2) \<Rightarrow> (Pending, s2)
           | (Resolved onDisk, s2) \<Rightarrow>
               (case require_frameworks w configs
                       (s2\<lparr>api_frameworks := appendToFrameworks (api_frameworks s2) onDisk\<rparr>) of
                  (Rejected e, s3) \<Rightarrow> (Rejected e, s3)
                | (Pending, s3) \<Rightarrow> (Pending, s3)
                | (Resolved u, s3) \<Rightarrow>
                    (case api_frameworks s3 of
                       None \<Rightarrow> (Rejected TypeError, emit Ui_debug s3)
                     | Some c \<Rightarrow>
                         (case select_scanFrameworks (cfg_scanFrameworks configs) c of
                            (Some e, c') \<Rightarrow>
                              (Rejected e, (emit Ui_debug s3)\<lparr>api_frameworks := Some c'\<rparr>)
                          | (None, c') \<Rightarrow>
                              (Resolved (), (emit Ui_debug s3)\<lparr>api_frameworks := Some c'\<rparr>))))))"

text \<open>
  \<open>KubescapeApi.setup\<close> (the plain name is a reserved word here). \<open>ui.progress\<close> is taken to run
  the work once and to return what the work returns. The \<open>version\<close> getter of the debug
  message after step 4 throws when no version is set, so the assignment guarded by
  \<open>!this._versionInfo\<close> that follows it never runs.
\<close>

definition kubescape_setup ::
  "world \<Rightarrow> IKubescapeConfig \<Rightarrow> bool \<Rightarrow> KubescapeApi \<Rightarrow> bool outcome \<times> KubescapeApi" where
  "kubescape_setup w configs abort s0 =
     (let s = emit (Ui_progress ''Initializing kubescape HIHI'') s0
      in if api_isInitialized s then (Resolved True, s)
         else
           (case getKubescapePath w (cfg_baseDirectory configs) of
              Inl e \<Rightarrow> (Rejected e, s)
            | Inr p \<Rightarrow>
                (case reconcile_version w configs
                        (emit Ui_debug (emit (Ui_fraction 1 5) (s\<lparr>api_path := Some p\<rparr>))) of
                   (Rejected e, s1) \<Rightarrow> (Rejected e, s1)
                 | (Pending, s1) \<Rightarrow> (Pending, s1)
                 | (Resolved needsUpdate, s1) \<Rightarrow>
                     (case install_if_needed w configs abort needsUpdate s1 of
                        (Rejected e, s2) \<Rightarrow> (Rejected e, s2)
                      | (Pending, s2) \<Rightarrow> (Pending, s2)
                      | (Resolved False, s2) \<Rightarrow> (Resolved False, s2)
                      | (Resolved True, s2) \<Rightarrow>
                          (case get_version (emit (Ui_fraction 4 5) s2) of
                             Inl e \<Rightarrow> (Rejected e, emit (Ui_fraction 4 5) s2)
                           | Inr v \<Rightarrow>
                               (case initialize_frameworks w configs
                                       (emit Ui_debug (emit (Ui_fraction 4 5) s2)) of
                                  (Rejected e, s3) \<Rightarrow> (Rejected e, s3)
                                | (Pending, s3) \<Rightarrow> (Pending, s3)
                                | (Resolved u, s3) \<Rightarrow>
                                    (Resolved True,
                                     (emit Ui_debug (emit (Ui_fraction 5 5) s3))
                                        \<lparr>api_isInitialized := True\<rparr>)))))))"

subsection \<open>Scan invoker\<close>

text \<open>\<open>Object.assign(target, source)\<close> on argument objects.\<close>

fun object_assign :: "(string \<times> 'v) list \<Rightarrow> (string \<times> 'v) list \<Rightarrow> (string \<times> 'v) list" where
  "object_assign target [] = target"
| "object_assign target ((k, v) # rest) =
     object_assign
       (if k \<in> fst ` set target
        then map (\<lambda>(k', v'). if k' = k then (k', v) else (k', v')) target
        else target @ [(k, v)])
       rest"

definition buildScanCommand ::
  "world \<Rightarrow> KubescapeApi \<Rightarrow> string option \<Rightarrow> string option \<Rightarrow> (string \<times> argval) list option \<Rightarrow>
   fault + string" where
  "buildScanCommand w s pathInput kubeconfigPath args =
     buildKubescapeCommand w s
       (COMMAND_SCAN_FRAMEWORK @ '' '' @ intercalate '','' (get_frameworksNames s) @ '' '' @
        (case pathInput of None \<Rightarrow> [] | Some p \<Rightarrow> p))
       kubeconfigPath args"

text \<open>
  \<open>withTempFile\<close>: the temporary directory is removed in a \<open>finally\<close> block, which runs
  when the wrapped work settles; the removal is not awaited.
\<close>

definition withTempFile ::
  "world \<Rightarrow> string \<Rightarrow> (string \<Rightarrow> KubescapeApi \<Rightarrow> 'a outcome \<times> KubescapeApi) \<Rightarrow> KubescapeApi \<Rightarrow>
   'a outcome \<times> KubescapeApi" where
  "withTempFile w filename fn s =
     (case realpath_o w (trace s) (os_tmpdir w) of
        None \<Rightarrow> (Rejected SystemError, emit (Fs_realpath (os_tmpdir w)) s)
      | Some t \<Rightarrow>
          (let s1 = emit (Fs_realpath (os_tmpdir w)) s
           in case mkdtemp_o w (trace s1) (t @ path_sep w) of
                None \<Rightarrow> (Rejected SystemError, emit (Fs_mkdtemp (t @ path_sep w)) s1)
              | Some dir \<Rightarrow>
                  (case fn (path_join w [dir, filename]) (emit (Fs_mkdtemp (t @ path_sep w)) s1) of
                     (Pending, s2) \<Rightarrow> (Pending, s2)
                   | (r, s2) \<Rightarrow> (r, emit (Fs_rm dir) s2))))"

text \<open>
  The control metadata: \<open>getControlsMap\<close> keys a \<open>Map\<close> by
  \<open>control?.id ?? control.controlID\<close>. The map is only ever asked for text keys, so the
  entries under other keys are left out here. A fault inside the \<open>try\<close> block ends the
  work on that file and keeps what the file has contributed so far.
\<close>

definition control_id :: "jsval \<Rightarrow> fault + jsval" where
  "control_id control =
     (if control = JUndefined \<or> control = JNull then Inl TypeError
      else (case get_prop control ''id'' of
              Inl e \<Rightarrow> Inl e
            | Inr v \<Rightarrow> if v = JUndefined \<or> v = JNull then get_prop control ''controlID'' else Inr v))"

fun add_controls :: "jsval list \<Rightarrow> (string \<times> jsval) list \<Rightarrow> (string \<times> jsval) list" where
  "add_controls [] controlsMap = controlsMap"
| "add_controls (control # rest) controlsMap =
     (case control_id control of
        Inl e \<Rightarrow> controlsMap
      | Inr (JStr controlID) \<Rightarrow>
          add_controls rest
            (if controlID \<in> fst ` set controlsMap then controlsMap
             else controlsMap @ [(controlID, control)])
      | Inr _ \<Rightarrow> add_controls rest controlsMap)"

definition file_controls :: "'h host_scheme \<Rightarrow> string \<Rightarrow> (string \<times> jsval) list \<Rightarrow> (string \<times> jsval) list" where
  "file_controls h f_text controlsMap =
     (case get_prop (toJson h f_text) ''controls'' of
        Inr (JArr controls) \<Rightarrow> add_controls controls controlsMap
      | _ \<Rightarrow> controlsMap)"

fun controls_of_files ::
  "world \<Rightarrow> string \<Rightarrow> string list \<Rightarrow> (string \<times> jsval) list \<Rightarrow> KubescapeApi \<Rightarrow>
   (string \<times> jsval) list \<times> KubescapeApi" where
  "controls_of_files w dir [] controlsMap s = (controlsMap, s)"
| "controls_of_files w dir (file # rest) controlsMap s =
     (if suffix ''.json'' file
      then (case decodeURIComponent w (path_join w [dir, file]) of
              None \<Rightarrow> controls_of_files w dir rest controlsMap s
            | Some p \<Rightarrow>
                (case readFile_o w (trace s) p of
                   None \<Rightarrow> controls_of_files w dir rest controlsMap (emit (Fs_readFile p) s)
                 | Some f_text \<Rightarrow>
                     controls_of_files w dir rest (file_controls w f_text controlsMap)
                       (emit (Fs_readFile p) s)))
      else controls_of_files w dir rest controlsMap s)"

definition getControlsMap ::
  "world \<Rightarrow> KubescapeApi \<Rightarrow> (string \<times> jsval) list outcome \<times> KubescapeApi" where
  "getControlsMap w s =
     (case get_frameworkDirectory s of
        Inl e \<Rightarrow> (Rejected e, s)
      | Inr dir \<Rightarrow>
          (case readdir_o w (trace s) dir of
             None \<Rightarrow> (Rejected SystemError, emit (Fs_readdir dir) s)
           | Some files \<Rightarrow>
               (let (m, s1) = controls_of_files w dir files [] (emit (Fs_readdir dir) s)
                in (Resolved m, s1))))"

text \<open>
  \<open>Object.entries\<close> of a parsed JSON value, and the value rebuilt from its entries after
  they were updated. The index keys of an array are decimal numerals.
\<close>

function decimal :: "nat \<Rightarrow> string" where
  "decimal n =
     (if n < 10 then [''0123456789'' ! n]
      else decimal (n div 10) @ [''0123456789'' ! (n mod 10)])"
  by pat_completeness auto
termination
  by (relation "measure id") auto

definition entries_of :: "jsval \<Rightarrow> fault + (string \<times> jsval) list" where
  "entries_of v =
     (case v of
        JUndefined \<Rightarrow> Inl TypeError
      | JNull \<Rightarrow> Inl TypeError
      | JObj kvs \<Rightarrow> Inr kvs
      | JArr xs \<Rightarrow> Inr (map (\<lambda>i. (decimal i, xs ! i)) [0..<length xs])
      | JStr str \<Rightarrow> Inr (map (\<lambda>i. (decimal i, JStr [str ! i])) [0..<length str])
      | _ \<Rightarrow> Inr [])"

definition rebuild :: "jsval \<Rightarrow> (string \<times> jsval) list \<Rightarrow> jsval" where
  "rebuild v entries =
     (case v of
        JObj kvs \<Rightarrow> JObj entries
      | JArr xs \<Rightarrow> JArr (map snd entries)
      | _ \<Rightarrow> v)"

text \<open>
  \<open>control[key] = value\<close>: on an object the property is set; on \<open>null\<close> and on a primitive
  value the assignment throws (the compiled module is strict code). An array takes the
  property beside its elements, which this model of values does not show.
\<close>

definition set_prop :: "jsval \<Rightarrow> string \<Rightarrow> jsval \<Rightarrow> fault + jsval" where
  "set_prop control key v =
     (case control of
        JObj kvs \<Rightarrow> Inr (JObj (object_assign kvs [(key, v)]))
      | JArr xs \<Rightarrow> Inr (JArr xs)
      | _ \<Rightarrow> Inl TypeError)"

definition enrich_control :: "jsval \<Rightarrow> jsval \<Rightarrow> fault + jsval" where
  "enrich_control meta control =
     (case get_prop meta ''description'' of
        Inl e \<Rightarrow> Inl e
      | Inr d \<Rightarrow>
          (case set_prop control ''description'' d of
             Inl e \<Rightarrow> Inl e
           | Inr c1 \<Rightarrow>
               (case get_prop meta ''remediation'' of
                  Inl e \<Rightarrow> Inl e
                | Inr r \<Rightarrow> set_prop c1 ''remediation'' r)))"

fun enrich_controls ::
  "(string \<times> jsval) list \<Rightarrow> (string \<times> jsval) list \<Rightarrow> fault + (string \<times> jsval) list" where
  "enrich_controls controlsMap [] = Inr []"
| "enrich_controls controlsMap ((controlId, control) # rest) =
     (case (case map_of controlsMap controlId of
              None \<Rightarrow> Inr control
            | Some meta \<Rightarrow> enrich_control meta control) of
        Inl e \<Rightarrow> Inl e
      | Inr c \<Rightarrow>
          (case enrich_controls controlsMap rest of
             Inl e \<Rightarrow> Inl e
           | Inr cs \<Rightarrow> Inr ((controlId, c) # cs)))"

definition enriched_report :: "(string \<times> jsval) list \<Rightarrow> jsval \<Rightarrow> fault + jsval" where
  "enriched_report controlsMap report =
     (case get_prop report ''summaryDetails'' of
        Inl e \<Rightarrow> Inl e
      | Inr summaryDetails \<Rightarrow>
          (case get_prop summaryDetails ''controls'' of
             Inl e \<Rightarrow> Inl e
           | Inr controls \<Rightarrow>
               (case entries_of controls of
                  Inl e \<Rightarrow> Inl e
                | Inr entries \<Rightarrow>
                    (case enrich_controls controlsMap entries of
                       Inl e \<Rightarrow> Inl e
                     | Inr entries' \<Rightarrow>
                         (case (report, summaryDetails) of
                            (JObj r, JObj sd) \<Rightarrow>
                              Inr (JObj (object_assign r
                                     [(''summaryDetails'',
                                       JObj (object_assign sd
                                               [(''controls'', rebuild controls entries')]))]))
                          | _ \<Rightarrow> Inr report)))))"

definition appendControlsInformationToV2Report ::
  "world \<Rightarrow> jsval \<Rightarrow> KubescapeApi \<Rightarrow> jsval outcome \<times> KubescapeApi" where
  "appendControlsInformationToV2Report w report s =
     (case getControlsMap w s of
        (Rejected e, s1) \<Rightarrow> (Rejected e, s1)
      | (Pending, s1) \<Rightarrow> (Pending, s1)
      | (Resolved controlsMap, s1) \<Rightarrow>
          (case enriched_report controlsMap report of
             Inl e \<Rightarrow> (Rejected e, s1)
           | Inr report' \<Rightarrow> (Resolved report', s1)))"

text \<open>
  The callback both scans pass to the subprocess. It is an \<open>async\<close> function inside
  \<open>new Promise\<close>: a fault thrown in it (by \<open>readFileSync\<close>, by \<open>JSON.parse\<close>, or by the
  awaited enrichment) is an unhandled rejection and leaves the promise of the scan
  pending.
\<close>

definition scan_callback ::
  "world \<Rightarrow> string \<Rightarrow> exec_result \<Rightarrow> KubescapeApi \<Rightarrow> jsval outcome \<times> KubescapeApi" where
  "scan_callback w file r s =
     (let s1 = (if err r then emit Ui_error (emit Ui_debug s) else emit Ui_debug s);
          s2 = emit (Fs_readFile file) s1
      in case readFile_o w (trace s1) file of
           None \<Rightarrow> (Pending, emit (Uncaught SystemError) s2)
         | Some text \<Rightarrow>
             (case JSON_parse w text of
                None \<Rightarrow> (Pending, emit (Uncaught SyntaxError) s2)
              | Some report \<Rightarrow>
                  if \<not> truthy report then (Resolved (JObj []), emit Ui_error s2)
                  else (case appendControlsInformationToV2Report w report (emit Ui_debug s2) of
                          (Rejected e, s3) \<Rightarrow> (Pending, emit (Uncaught e) s3)
                        | (Pending, s3) \<Rightarrow> (Pending, s3)
                        | (Resolved report', s3) \<Rightarrow> (Resolved report', s3))))"

definition scanYaml ::
  "world \<Rightarrow> string \<Rightarrow> (string \<times> argval) list option \<Rightarrow> KubescapeApi \<Rightarrow>
   jsval outcome \<times> KubescapeApi" where
  "scanYaml w filePath overrideArgs s =
     withTempFile w (''report-'' @ uuid_o w (trace s) @ ''.json'')
       (\<lambda>file s.
          case get_frameworkDirectory s of
            Inl e \<Rightarrow> (Rejected e, s)
          | Inr dir \<Rightarrow>
              (case buildScanCommand w s (Some (dq # path_resolve w [filePath] @ [dq])) None
                      (Some (object_assign
                               [(''use-artifacts-from'', ArgStr (dq # dir @ [dq])),
                                (''format'', ArgStr ''json''),
                                (''format-version'', ArgStr ''v2''),
                                (''output'', ArgStr (dq # file @ [dq])),
                                (''keep-local'', ArgBool True)]
                               (case overrideArgs of None \<Rightarrow> [] | Some a \<Rightarrow> a))) of
                 Inl e \<Rightarrow> (Rejected e, s)
               | Inr cmd \<Rightarrow>
                   (let (r, s1) = exec w cmd
                                    (emit (Ui_slow ''Kubescape scanning'')
                                       (emit Ui_info (emit Ui_debug s)))
                    in scan_callback w file r s1)))
       s"

definition scanCluster ::
  "world \<Rightarrow> string \<Rightarrow> string option \<Rightarrow> (string \<times> argval) list option \<Rightarrow> KubescapeApi \<Rightarrow>
   jsval outcome \<times> KubescapeApi" where
  "scanCluster w context kubeconfigPath overrideArgs s =
     withTempFile w (''report-'' @ uuid_o w (trace s) @ ''.json'')
       (\<lambda>file s.
          case get_frameworkDirectory s of
            Inl e \<Rightarrow> (Rejected e, s)
          | Inr dir \<Rightarrow>
              (case buildScanCommand w s None kubeconfigPath
                      (Some (object_assign
                               [(''use-artifacts-from'', ArgStr (dq # dir @ [dq])),
                                (''format'', ArgStr ''json''),
                                (''format-version'', ArgStr ''v2''),
                                (''output'', ArgStr (dq # file @ [dq])),
                                (''keep-local'', ArgBool True),
                                (''kube-context'', ArgStr context)]
                               (case overrideArgs of None \<Rightarrow> [] | Some a \<Rightarrow> a))) of
                 Inl e \<Rightarrow> (Rejected e, s)
               | Inr cmd \<Rightarrow>
                   (let (r, s1) = exec w cmd
                                    (emit (Ui_slow (''Kubescape scanning cluster '' @ context))
                                       (emit Ui_debug s))
                    in scan_callback w file r s1)))
       s"

section \<open>The orchestrator of \<open>src/index.ts\<close>\<close>

text \<open>
  The repository holds an earlier text of the same class in \<open>src/index.ts\<close>. Where its
  functions differ from the ones above they are modelled again, with the suffix
  \<open>_index\<close>; \<open>downloadFile\<close>, \<open>getKubescapePath\<close>, \<open>isKubescapeInstalled\<close>, the getters
  and \<open>appendToFrameworks\<close> are the same text in both files.
\<close>

definition chooseKubescapeAsset_index :: "'h host_scheme \<Rightarrow> string option" where
  "chooseKubescapeAsset_index h =
     (if os_platform h = ''linux'' then Some ''kubescape-ubuntu-latest''
      else if os_platform h = ''darwin'' then Some ''kubescape-macos-latest''
      else if os_platform h = ''win32'' then Some ''kubescape-windows-latest''
      else None)"

definition install_index ::
  "world \<Rightarrow> string \<Rightarrow> string \<Rightarrow> bool \<Rightarrow> KubescapeApi \<Rightarrow> bool outcome \<times> KubescapeApi" where
  "install_index w ver kubescapeDir cancel s =
     (let (u, s1) = (if ver = TXT_LATEST then getLatestVersionUrl w s
                     else (Resolved (PACKAGE_DOWNLOAD_BASE_URL @ ''/'' @ ver), s))
      in case u of
           Rejected e \<Rightarrow> (Rejected e, s1)
         | Pending \<Rightarrow> (Pending, s1)
         | Resolved url \<Rightarrow>
             (let binaryUrl = url @ ''/'' @
                    (case chooseKubescapeAsset_index w of None \<Rightarrow> ''undefined'' | Some a \<Rightarrow> a);
                  (r, s2) = downloadFile w binaryUrl kubescapeDir (getOsKubescapeFilename w)
                              cancel (\<not> isWindows w) s1
              in case r of
                   Resolved kubescapeFullPath \<Rightarrow> (Resolved (length kubescapeFullPath > 0), s2)
                 | Rejected e \<Rightarrow> (Rejected e, s2)
                 | Pending \<Rightarrow> (Pending, s2)))"

text \<open>
  \<open>getKubescapeVersion()\<close> of \<open>src/index.ts\<close>: the installed version is not the latest
  when the error stream names a different version.
\<close>

definition getKubescapeVersion_index ::
  "world \<Rightarrow> KubescapeApi \<Rightarrow> KubescapeVersion outcome \<times> KubescapeApi" where
  "getKubescapeVersion_index w s =
     (if \<not> api_isInstalled s then (Rejected (Error ERROR_KUBESCAPE_NOT_INSTALLED), s)
      else
        (case buildKubescapeCommand w s COMMAND_GET_VERSION None None of
           Inl e \<Rightarrow> (Rejected e, s)
         | Inr cmd \<Rightarrow>
             (let (r, s1) = exec w cmd s
              in if err r then (Pending, emit (Uncaught (Error (stderr r))) s1)
                 else
                   (case first_version_match (stdout r) of
                      None \<Rightarrow> (Resolved \<lparr>version = ''unknown'', isLatest = True\<rparr>, s1)
                    | Some m \<Rightarrow>
                        (case first_version_match (stderr r) of
                           None \<Rightarrow> (Resolved \<lparr>version = m, isLatest = True\<rparr>, s1)
                         | Some m' \<Rightarrow> (Resolved \<lparr>version = m, isLatest = (m' = m)\<rparr>, s1))))))"

fun start_downloads_index ::
  "world \<Rightarrow> string list \<Rightarrow> KubescapeApi \<Rightarrow> (string \<times> (fault + exec_result)) list \<times> KubescapeApi" where
  "start_downloads_index w [] s = ([], s)"
| "start_downloads_index w (framework # rest) s =
     (case download_command w s framework of
        Inl e \<Rightarrow>
          (let (rs, s') = start_downloads_index w rest s in ((framework, Inl e) # rs, s'))
      | Inr cmd \<Rightarrow>
          (let (r, s1) = exec w cmd s;
               (rs, s') = start_downloads_index w rest s1
           in ((framework, Inr r) # rs, s')))"

definition settle_download_index :: "string \<times> (fault + exec_result) \<Rightarrow> string outcome" where
  "settle_download_index p =
     (case snd p of
        Inl e \<Rightarrow> Rejected e
      | Inr r \<Rightarrow>
          if err r then Rejected (download_failed (fst p) (stderr r))
          else Resolved (js_replace (stdout r) framework_key
                           (framework_key @ '': '' @ quote # fst p @ [quote])))"

definition downloadMissingFrameworks_index ::
  "world \<Rightarrow> string list \<Rightarrow> KubescapeApi \<Rightarrow> string list outcome \<times> KubescapeApi" where
  "downloadMissingFrameworks_index w requiredFrameworks s =
     (let (started, s1) = start_downloads_index w requiredFrameworks s
      in (promise_all (settle_order started (schedule_o w (trace s1)))
            (map settle_download_index started),
          s1))"

definition installFrameworks_index ::
  "world \<Rightarrow> string list \<Rightarrow> KubescapeApi \<Rightarrow> unit outcome \<times> KubescapeApi" where
  "installFrameworks_index w frameworks s =
     (let (needed, fws) = frameworksNeedsDownload frameworks (api_frameworks s);
          s1 = s\<lparr>api_frameworks := fws\<rparr>
      in if length needed > 0
         then (case downloadMissingFrameworks_index w needed s1 of
                 (Resolved newInstalledFrameworks, s2) \<Rightarrow>
                   (case resolveKubescapeFrameworks w newInstalledFrameworks of
                      Inl e \<Rightarrow> (Rejected e, emit Ui_debug s2)
                    | Inr fs \<Rightarrow>
                        (Resolved (),
                         (emit Ui_debug s2)\<lparr>api_frameworks :=
                            appendToFrameworks (api_frameworks s2) fs\<rparr>))
               | (Rejected e, s2) \<Rightarrow> (Rejected e, s2)
               | (Pending, s2) \<Rightarrow> (Pending, s2))
         else (Resolved (), s1))"

definition downloadAllFrameworks_index ::
  "world \<Rightarrow> KubescapeApi \<Rightarrow> string list outcome \<times> KubescapeApi" where
  "downloadAllFrameworks_index w s =
     (case get_frameworkDirectory s of
        Inl e \<Rightarrow> (Rejected e, s)
      | Inr dir \<Rightarrow>
          (case buildKubescapeCommand w s
                  (COMMAND_DOWNLOAD_ARTIFACTS @ '' --output '' @ dq # dir @ [dq]) None None of
             Inl e \<Rightarrow> (Rejected e, s)
           | Inr cmd \<Rightarrow>
               (let (r, s1) = exec w cmd s
                in if err r
                   then (Pending,
                         emit (Uncaught (Error (''Unable to download artifacts:'' @
                                                newline # stderr r))) s1)
                   else (Resolved (framework_line_matches (stdout r)), s1))))"

text \<open>\<open>frameworkFile.split('.')[0]\<close>: the text before the first dot.\<close>

definition before_dot :: "string \<Rightarrow> string" where
  "before_dot frameworkFile =
     (case js_split ''.'' frameworkFile of [] \<Rightarrow> [] | x # xs \<Rightarrow> x)"

definition getInstalledFrameworks_index ::
  "world \<Rightarrow> KubescapeApi \<Rightarrow> KubescapeFramework list outcome \<times> KubescapeApi" where
  "getInstalledFrameworks_index w s =
     (case get_frameworkDirectory s of
        Inl e \<Rightarrow> (Rejected e, s)
      | Inr dir \<Rightarrow>
          (case decodeURIComponent w dir of
             None \<Rightarrow> (Rejected URIError, s)
           | Some d \<Rightarrow>
               (case readdir_o w (trace s) d of
                  None \<Rightarrow> (Rejected SystemError, emit (Fs_readdir d) s)
                | Some files \<Rightarrow>
                    (let (frameworkFiles, s1) = framework_files w dir files (emit (Fs_readdir d) s)
                     in (Resolved
                           (map (\<lambda>frameworkFile.
                                   \<lparr>name = toLocaleLowerCase w (before_dot frameworkFile),
                                    isInstalled = False,
                                    location = JStr (expand w (path_join w [dir, frameworkFile]))\<rparr>)
                              frameworkFiles),
                         s1)))))"

definition reconcile_version_index ::
  "world \<Rightarrow> IKubescapeConfig \<Rightarrow> KubescapeApi \<Rightarrow> bool outcome \<times> KubescapeApi" where
  "reconcile_version_index w configs s =
     (case get_path s of
        Inl e \<Rightarrow> (Rejected e, s)
      | Inr p \<Rightarrow>
          (let (installed, s1) = isKubescapeInstalled w p s;
               s2 = emit (Ui_fraction 2 5) (emit Ui_debug (s1\<lparr>api_isInstalled := installed\<rparr>));
               s3 = emit Ui_debug s2
           in if \<not> api_isInstalled s3 then (Resolved True, emit (Ui_fraction 3 5) s3)
              else
                (case getKubescapeVersion_index w s3 of
                   (Rejected e, s4) \<Rightarrow> (Rejected e, s4)
                 | (Pending, s4) \<Rightarrow> (Pending, s4)
                 | (Resolved v, s4) \<Rightarrow>
                     (let s5 = s4\<lparr>api_versionInfo := Some v\<rparr>
                      in if cfg_version configs \<noteq> version v
                         then (if cfg_version configs = TXT_LATEST
                               then (case getLatestVersion w s5 of
                                       (Rejected e, s6) \<Rightarrow> (Rejected e, s6)
                                     | (Pending, s6) \<Rightarrow> (Pending, s6)
                                     | (Resolved latestVersionTag, s6) \<Rightarrow>
                                         (Resolved (latestVersionTag \<noteq> JStr (version v)),
                                          emit (Ui_fraction 3 5) s6))
                               else (Resolved True, emit (Ui_fraction 3 5) s5))
                         else (Resolved False, emit (Ui_fraction 3 5) s5)))))"

definition install_if_needed_index ::
  "world \<Rightarrow> IKubescapeConfig \<Rightarrow> bool \<Rightarrow> bool \<Rightarrow> KubescapeApi \<Rightarrow> bool outcome \<times> KubescapeApi" where
  "install_if_needed_index w configs abort needsUpdate s =
     (if needsUpdate
      then (case get_directory (emit Ui_debug s) of
              Inl e \<Rightarrow> (Rejected e, emit Ui_debug s)
            | Inr dir \<Rightarrow>
                (case install_index w (cfg_version configs) dir abort (emit Ui_debug s) of
                   (Rejected e, s1) \<Rightarrow> (Rejected e, s1)
                 | (Pending, s1) \<Rightarrow> (Pending, s1)
                 | (Resolved installed, s1) \<Rightarrow>
                     (let s2 = s1\<lparr>api_isInstalled := installed\<rparr>
                      in if \<not> installed
                         then (if abort then (Resolved False, emit Abort_signal (emit Ui_error s2))
                               else (Rejected TypeError, emit Ui_error s2))
                         else (case getKubescapeVersion_index w s2 of
                                 (Rejected e, s3) \<Rightarrow> (Rejected e, s3)
                               | (Pending, s3) \<Rightarrow> (Pending, s3)
                               | (Resolved v, s3) \<Rightarrow>
                                   (Resolved True, s3\<lparr>api_versionInfo := Some v\<rparr>)))))
      else (Resolved True, s))"

text \<open>
  In \<open>src/index.ts\<close> the configured directory is stored as it is, and expanded, created and
  probed inside the \<open>try\<close> block, which also catches the URIError of \<open>decodeURIComponent\<close>.
\<close>

definition choose_frameworkDir_index ::
  "world \<Rightarrow> IKubescapeConfig \<Rightarrow> KubescapeApi \<Rightarrow> fault option \<times> KubescapeApi" where
  "choose_frameworkDir_index w configs s =
     (case (case cfg_frameworksDirectory configs of
              None \<Rightarrow> None
            | Some d \<Rightarrow> if d = [] then None else Some d) of
        Some d \<Rightarrow>
          (let s1 = s\<lparr>api_frameworkDir := Some (expand w d)\<rparr>
           in case decodeURIComponent w (expand w d) of
                None \<Rightarrow>
                  (case get_directory s1 of
                     Inl e \<Rightarrow> (Some e, emit Ui_info s1)
                   | Inr fallback \<Rightarrow> (None, (emit Ui_info s1)\<lparr>api_frameworkDir := Some fallback\<rparr>))
              | Some dir \<Rightarrow>
                  (let s2 = emit (Fs_mkdir dir) s1
                   in if \<not> mkdir_o w (trace s1) dir
                      then (case get_directory s2 of
                              Inl e \<Rightarrow> (Some e, emit Ui_info s2)
                            | Inr fallback \<Rightarrow>
                                (None, (emit Ui_info s2)\<lparr>api_frameworkDir := Some fallback\<rparr>))
                      else if \<not> access_o w (trace s2) dir
                      then (case get_directory s2 of
                              Inl e \<Rightarrow> (Some e, emit Ui_info (emit (Fs_access dir) s2))
                            | Inr fallback \<Rightarrow>
                                (None, (emit Ui_info (emit (Fs_access dir) s2))
                                          \<lparr>api_frameworkDir := Some fallback\<rparr>))
                      else (None, emit (Fs_access dir) s2)))
      | None \<Rightarrow>
          (case get_directory s of
             Inl e \<Rightarrow> (Some e, s\<lparr>api_frameworkDir := cfg_frameworksDirectory configs\<rparr>)
           | Inr fallback \<Rightarrow> (None, s\<lparr>api_frameworkDir := Some fallback\<rparr>)))"

definition require_frameworks_index ::
  "world \<Rightarrow> IKubescapeConfig \<Rightarrow> KubescapeApi \<Rightarrow> unit outcome \<times> KubescapeApi" where
  "require_frameworks_index w configs s =
     (case (case cfg_requiredFrameworks configs of
              None \<Rightarrow> None
            | Some l \<Rightarrow> if ''all'' \<in> set l then None else Some l) of
        Some l \<Rightarrow>
          (let s1 = emit Ui_debug s;
               missing = filter (\<lambda>framework.
                            case api_frameworks s1 of
                              None \<Rightarrow> True
                            | Some c \<Rightarrow> \<not> truthy_at c framework) l
           in if length missing > 0 then installFrameworks_index w missing s1
              else (Resolved (), s1))
      | None \<Rightarrow>
          (case downloadAllFrameworks_index w (emit Ui_debug s) of
             (Rejected e, s1) \<Rightarrow> (Rejected e, s1)
           | (Pending, s1) \<Rightarrow> (Pending, s1)
           | (Resolved allFrameworks, s1) \<Rightarrow>
               (case resolveKubescapeFrameworks w allFrameworks of
                  Inl e \<Rightarrow> (Rejected e, s1)
                | Inr fs \<Rightarrow>
                    (Resolved (),
                     s1\<lparr>api_frameworks := appendToFrameworks (api_frameworks s1) fs\<rparr>))))"

definition initialize_frameworks_index ::
  "world \<Rightarrow> IKubescapeConfig \<Rightarrow> KubescapeApi \<Rightarrow> unit outcome \<times> KubescapeApi" where
  "initialize_frameworks_index w configs s =
     (case choose_frameworkDir_index w configs (s\<lparr>api_frameworks := Some []\<rparr>) of
        (Some e, s1) \<Rightarrow> (Rejected e, s1)
      | (None, s1) \<Rightarrow>
          (case getInstalledFrameworks_index w s1 of
             (Rejected e, s2) \<Rightarrow> (Rejected e, s2)
           | (Pending, s2) \<Rightarrow> (Pending, s2)
           | (Resolved onDisk, s2) \<Rightarrow>
               (case require_frameworks_index w configs
                       (s2\<lparr>api_frameworks := appendToFrameworks (api_frameworks s2) onDisk\<rparr>) of
                  (Rejected e, s3) \<Rightarrow> (Rejected e, s3)
                | (Pending, s3) \<Rightarrow> (Pending, s3)
                | (Resolved u, s3) \<Rightarrow>
                    (case api_frameworks s3 of
                       None \<Rightarrow> (Rejected TypeError, emit Ui_debug s3)
                     | Some c \<Rightarrow>
                         (case select_scanFrameworks (cfg_scanFrameworks configs) c of
                            (Some e, c') \<Rightarrow>
                              (Rejected e, (emit Ui_debug s3)\<lparr>api_frameworks := Some c'\<rparr>)
                          | (None, c') \<Rightarrow>
                              (Resolved (), (emit Ui_debug s3)\<lparr>api_frameworks := Some c'\<rparr>))))))"

text \<open>
  \<open>KubescapeApi.setup\<close> of \<open>src/index.ts\<close>: the same five steps; no statement of this text
  assigns \<open>_isInitialized\<close>.
\<close>

definition kubescape_setup_index ::
  "world \<Rightarrow> IKubescapeConfig \<Rightarrow> bool \<Rightarrow> KubescapeApi \<Rightarrow> bool outcome \<times> KubescapeApi" where
  "kubescape_setup_index w configs abort s0 =
     (let s = emit (Ui_progress ''Initializing kubescape'') s0
      in if api_isInitialized s then (Resolved True, s)
         else
           (case getKubescapePath w (cfg_baseDirectory configs) of
              Inl e \<Rightarrow> (Rejected e, s)
            | Inr p \<Rightarrow>
                (case reconcile_version_index w configs
                        (emit Ui_debug (emit (Ui_fraction 1 5) (s\<lparr>api_path := Some p\<rparr>))) of
                   (Rejected e, s1) \<Rightarrow> (Rejected e, s1)
                 | (Pending, s1) \<Rightarrow> (Pending, s1)
                 | (Resolved needsUpdate, s1) \<Rightarrow>
                     (case install_if_needed_index w configs abort needsUpdate s1 of
                        (Rejected e, s2) \<Rightarrow> (Rejected e, s2)
                      | (Pending, s2) \<Rightarrow> (Pending, s2)
                      | (Resolved False, s2) \<Rightarrow> (Resolved False, s2)
                      | (Resolved True, s2) \<Rightarrow>
                          (case get_version (emit (Ui_fraction 4 5) s2) of
                             Inl e \<Rightarrow> (Rejected e, emit (Ui_fraction 4 5) s2)
                           | Inr v \<Rightarrow>
                               (case initialize_frameworks_index w configs
                                       (emit Ui_debug (emit (Ui_fraction 4 5) s2)) of
                                  (Rejected e, s3) \<Rightarrow> (Rejected e, s3)
                                | (Pending, s3) \<Rightarrow> (Pending, s3)
                                | (Resolved u, s3) \<Rightarrow>
                                    (Resolved True,
                                     emit Ui_debug (emit (Ui_fraction 5 5) s3))))))))"

section \<open>A concrete host and world\<close>

text \<open>
  The scenarios below run on a Linux host: the POSIX \<open>path\<close> module of Node.js,
  percent-decoding of ASCII escapes, ASCII lower-casing, and the comparison of versions
  of the shape \<open>v1.2.3\<close>. \<open>JSON.parse\<close> is a table holding the texts the scenarios parse.
\<close>

fun normalize_segments :: "bool \<Rightarrow> string list \<Rightarrow> string list \<Rightarrow> string list" where
  "normalize_segments allowAboveRoot acc [] = rev acc"
| "normalize_segments allowAboveRoot acc (seg # rest) =
     (if seg = [] \<or> seg = ''.'' then normalize_segments allowAboveRoot acc rest
      else if seg = ''..''
      then (case acc of
              [] \<Rightarrow> normalize_segments allowAboveRoot (if allowAboveRoot then [''..''] else []) rest
            | a # acc' \<Rightarrow>
                if a = ''..''
                then normalize_segments allowAboveRoot
                       (if allowAboveRoot then ''..'' # acc else acc) rest
                else normalize_segments allowAboveRoot acc' rest)
      else normalize_segments allowAboveRoot (seg # acc) rest)"

definition posix_normalize :: "string \<Rightarrow> string" where
  "posix_normalize p =
     (if p = [] then ''.''
      else (let isAbsolute = (hd p = CHR ''/'');
                trailingSeparator = (last p = CHR ''/'');
                q = intercalate ''/'' (normalize_segments (\<not> isAbsolute) [] (js_split ''/'' p))
            in if q = [] then (if isAbsolute then ''/'' else if trailingSeparator then ''./'' else ''.'')
               else (if isAbsolute then ''/'' else []) @ q @
                    (if trailingSeparator then ''/'' else [])))"

definition posix_join :: "string list \<Rightarrow> string" where
  "posix_join parts =
     (let joined = intercalate ''/'' (filter (\<lambda>p. p \<noteq> []) parts)
      in if joined = [] then ''.'' else posix_normalize joined)"

fun resolve_from_right :: "string list \<Rightarrow> string \<Rightarrow> string" where
  "resolve_from_right [] resolved = resolved"
| "resolve_from_right (p # ps) resolved =
     (if p = [] then resolve_from_right ps resolved
      else if hd p = CHR ''/'' then p @ ''/'' @ resolved
      else resolve_from_right ps (p @ ''/'' @ resolved))"

text \<open>\<open>path.resolve\<close> in the working directory \<open>cwd\<close>, an absolute path.\<close>

definition posix_resolve :: "string \<Rightarrow> string list \<Rightarrow> string" where
  "posix_resolve cwd parts =
     CHR ''/'' # intercalate ''/''
       (normalize_segments False [] (js_split ''/'' (resolve_from_right (rev parts @ [cwd]) [])))"

definition hex_value :: "char \<Rightarrow> nat option" where
  "hex_value c =
     (case indexOf ''0123456789abcdef'' [c] of
        Some i \<Rightarrow> Some i
      | None \<Rightarrow> (case indexOf ''0123456789ABCDEF'' [c] of Some i \<Rightarrow> Some i | None \<Rightarrow> None))"

text \<open>
  \<open>decodeURIComponent\<close> on ASCII: a percent sign must be followed by two hexadecimal
  digits. Escapes of bytes beyond ASCII, which Node.js decodes when they form UTF-8, are
  outside this table and answered as malformed.
\<close>

fun percent_decode :: "string \<Rightarrow> string option" where
  "percent_decode [] = Some []"
| "percent_decode [c] = (if c = CHR ''%'' then None else Some [c])"
| "percent_decode [c, d] = (if c = CHR ''%'' \<or> d = CHR ''%'' then None else Some [c, d])"
| "percent_decode (c # d # e # rest) =
     (if c = CHR ''%''
      then (case (hex_value d, hex_value e) of
              (Some a, Some b) \<Rightarrow>
                if 16 * a + b < 128
                then map_option ((#) (char_of (16 * a + b))) (percent_decode rest)
                else None
            | _ \<Rightarrow> None)
      else map_option ((#) c) (percent_decode (d # e # rest)))"

definition ascii_lower :: "string \<Rightarrow> string" where
  "ascii_lower str =
     map (\<lambda>c. case map_of (zip ''ABCDEFGHIJKLMNOPQRSTUVWXYZ'' ''abcdefghijklmnopqrstuvwxyz'') c of
                 None \<Rightarrow> c
               | Some l \<Rightarrow> l) str"

definition parse_number :: "string \<Rightarrow> nat option" where
  "parse_number str =
     (if str \<noteq> [] \<and> list_all isDigit str
      then Some (foldl (\<lambda>n c. 10 * n + (case indexOf ''0123456789'' [c] of Some i \<Rightarrow> i | None \<Rightarrow> 0)) 0 str)
      else None)"

definition parse_semver :: "string \<Rightarrow> (nat \<times> nat \<times> nat) option" where
  "parse_semver str =
     (case js_split ''.'' (if str \<noteq> [] \<and> hd str = CHR ''v'' then tl str else str) of
        [a, b, c] \<Rightarrow>
          (case (parse_number a, parse_number b, parse_number c) of
             (Some x, Some y, Some z) \<Rightarrow> Some (x, y, z)
           | _ \<Rightarrow> None)
      | _ \<Rightarrow> None)"

text \<open>
  \<open>compareVersions\<close> on versions of three numeric parts with an optional leading \<open>v\<close>, the
  shape the version detector extracts; the library throws on a text that is no version,
  such as the placeholder \<open>unknown\<close>.
\<close>

definition semver_compare :: "string \<Rightarrow> string \<Rightarrow> int option" where
  "semver_compare v1 v2 =
     (case (parse_semver v1, parse_semver v2) of
        (Some (a, b, c), Some (x, y, z)) \<Rightarrow>
          Some (if a < x \<or> (a = x \<and> (b < y \<or> (b = y \<and> c < z))) then - 1
                else if (a, b, c) = (x, y, z) then 0 else 1)
      | _ \<Rightarrow> None)"

definition release_text :: string where
  \<open>release_text =
     ''{"tag_name":"v2.0.160","html_url":"https://github.com/armosec/kubescape/releases/tag/v2.0.160"}''\<close>

definition nsa_line :: string where
  \<open>nsa_line = ''{"artifact":"framework","name":"NSA","path":"/opt/kubescape/nsa.json"}''\<close>

definition control_line :: string where
  \<open>control_line = ''{"artifact":"control","name":"C-0001","path":"/opt/kubescape/c-0001.json"}''\<close>

definition json_table :: "(string \<times> jsval) list" where
  "json_table =
     [(release_text,
       JObj [(''tag_name'', JStr ''v2.0.160''),
             (''html_url'', JStr ''https://github.com/armosec/kubescape/releases/tag/v2.0.160'')]),
      (nsa_line,
       JObj [(''artifact'', JStr ''framework''), (''name'', JStr ''NSA''),
             (''path'', JStr ''/opt/kubescape/nsa.json'')]),
      (control_line,
       JObj [(''artifact'', JStr ''control''), (''name'', JStr ''C-0001''),
             (''path'', JStr ''/opt/kubescape/c-0001.json'')]),
      (''null'', JNull)]"

text \<open>
  The wrapped tool of the scenarios: version \<open>v2.0.144\<close> is installed and answers \<open>help\<close>
  and \<open>version\<close>; the download of the framework \<open>mitre\<close> succeeds with the legacy output
  line, every other subprocess (the download of \<open>nsa\<close>, a scan) fails.
\<close>

definition mitre_output :: string where
  "mitre_output =
     framework_key @ '' downloaded successfully. Saved to: '' @
     quote # ''/opt/kubescape/mitre.json'' @ [quote]"

definition demo_exec :: "event list \<Rightarrow> string \<Rightarrow> exec_result" where
  "demo_exec tr cmd =
     (if indexOf cmd '' help'' \<noteq> None then \<lparr>err = False, stdout = ''Usage: kubescape'', stderr = []\<rparr>
      else if indexOf cmd '' version'' \<noteq> None
      then \<lparr>err = False, stdout = ''Your current version is: v2.0.144'', stderr = []\<rparr>
      else if indexOf cmd ''download framework mitre'' \<noteq> None
      then \<lparr>err = False, stdout = mitre_output, stderr = []\<rparr>
      else \<lparr>err = True, stdout = [], stderr = ''failed''\<rparr>)"

definition demo_fetch :: "event list \<Rightarrow> string \<Rightarrow> response option" where
  "demo_fetch tr url =
     (if url = PACKAGE_BASE_URL
      then Some \<lparr>ok = True,
                 body = Some \<lparr>content_length = length release_text, chunks = [release_text],
                              stream_fails = False\<rparr>\<rparr>
      else None)"

definition demo_world :: world where
  "demo_world =
     \<lparr>os_platform = ''linux'', os_arch = ''x64'', os_homedir = ''/home/user'',
      os_tmpdir = ''/tmp'', process_env = [(''HOME'', ''/home/user'')], path_sep = ''/'',
      path_normalize = posix_normalize, path_join = posix_join,
      path_resolve = posix_resolve ''/work'', decodeURIComponent = percent_decode,
      JSON_parse = map_of json_table, toLocaleLowerCase = ascii_lower,
      compareVersions = semver_compare,
      exec_o = demo_exec, fetch_o = demo_fetch,
      mkdir_o = (\<lambda>tr d. True), access_o = (\<lambda>tr d. True), chmod_o = (\<lambda>tr p. True),
      readdir_o = (\<lambda>tr d. Some []), readFile_o = (\<lambda>tr p. None),
      realpath_o = (\<lambda>tr p. Some p), mkdtemp_o = (\<lambda>tr p. Some (p @ ''kx3f9a'')),
      schedule_o = (\<lambda>tr. []), uuid_o = (\<lambda>tr. ''1b9d6bcd'')\<rparr>"

definition demo_config :: IKubescapeConfig where
  "demo_config =
     \<lparr>cfg_version = ''v2.0.144'', cfg_frameworksDirectory = None,
      cfg_baseDirectory = ''/opt/kubescape'', cfg_requiredFrameworks = Some [],
      cfg_scanFrameworks = Some []\<rparr>"

definition nsa_on_disk :: KubescapeFramework where
  "nsa_on_disk = \<lparr>name = ''nsa'', isInstalled = False, location = JStr ''/disk/x/nsa.json''\<rparr>"

definition nsa_downloaded :: KubescapeFramework where
  "nsa_downloaded = \<lparr>name = ''nsa'', isInstalled = False, location = JStr ''/disk/y/nsa.json''\<rparr>"

definition mitre_downloaded :: KubescapeFramework where
  "mitre_downloaded =
     \<lparr>name = ''mitre'', isInstalled = False, location = JStr ''/disk/y/mitre.json''\<rparr>"

definition demo_catalog :: catalog where
  "demo_catalog = [(''nsa'', nsa_on_disk), (''mitre'', mitre_downloaded)]"

text \<open>
  The orchestrator as a successful \<open>setup\<close> on this host leaves it, with an empty catalog
  and the record of events started afresh.
\<close>

definition demo_ready :: KubescapeApi where
  "demo_ready =
     \<lparr>api_isInitialized = True, api_isInstalled = True,
      api_path = Some \<lparr>fullPath = ''/opt/kubescape/kubescape'', baseDir = ''/opt/kubescape''\<rparr>,
      api_frameworkDir = Some ''/opt/kubescape'',
      api_versionInfo = Some \<lparr>version = ''v2.0.144'', isLatest = False\<rparr>,
      api_frameworks = Some [], trace = []\<rparr>"







text \<open>The events that reach beyond the process: subprocesses, requests, the file system.\<close>

fun is_effect :: "event \<Rightarrow> bool" where
  "is_effect Ui_info = False"
| "is_effect Ui_error = False"
| "is_effect Ui_debug = False"
| "is_effect (Ui_progress title) = False"
| "is_effect (Ui_slow title) = False"
| "is_effect (Ui_fraction a b) = False"
| "is_effect Console_error = False"
| "is_effect e = True"

text \<open>Two more worlds: a tool whose \<open>version\<close> output names no version, and a tool that crashes.\<close>

definition devbuild_world :: world where
  "devbuild_world =
     demo_world\<lparr>exec_o := (\<lambda>tr cmd. \<lparr>err = False, stdout = ''kubescape development build'',
                                        stderr = []\<rparr>)\<rparr>"

definition crashing_world :: world where
  "crashing_world = demo_world\<lparr>exec_o := (\<lambda>tr cmd. \<lparr>err = True, stdout = [], stderr = ''killed''\<rparr>)\<rparr>"




text \<open>The orchestrator after one \<open>setup\<close> of \<open>src/index.ts\<close> on the concrete host.\<close>

definition after_setup_index :: KubescapeApi where
  "after_setup_index = snd (kubescape_setup_index demo_world demo_config False new_KubescapeApi)"

definition after_setup :: KubescapeApi where
  "after_setup = snd (kubescape_setup demo_world demo_config False new_KubescapeApi)"

text \<open>A world whose report file holds no JSON.\<close>

definition garbled_world :: world where
  "garbled_world = demo_world\<lparr>readFile_o := (\<lambda>tr p. Some ''<html>'')\<rparr>"


section \<open>The catalog merge\<close>

lemma appendToFrameworks_Some:
  "\<exists>added. appendToFrameworks (Some to) from = Some (to @ added) \<and>
     (\<forall>(k, v) \<in> set added. k \<notin> fst ` set to \<and> k \<notin> set object_prototype_keys \<and>
        name v = k \<and> v \<in> set from) \<and>
     distinct (map fst added)"
proof (induction "from" arbitrary: to)
  case Nil
  then show ?case by simp
next
  case (Cons framework "from")
  show ?case
  proof (cases "truthy_at to (name framework)")
    case True
    with Cons.IH [of to] show ?thesis by fastforce
  next
    case False
    from Cons.IH [of "to @ [(name framework, framework)]"]
    obtain added where a: "appendToFrameworks (Some (to @ [(name framework, framework)])) from =
        Some ((to @ [(name framework, framework)]) @ added)"
      and b: "\<forall>(k, v) \<in> set added. k \<notin> fst ` set (to @ [(name framework, framework)]) \<and>
          k \<notin> set object_prototype_keys \<and> name v = k \<and> v \<in> set from"
      and c: "distinct (map fst added)"
      by blast
    show ?thesis
      apply (rule exI [of _ "(name framework, framework) # added"])
      using False a b c by (auto simp: truthy_at_def)
  qed
qed

lemma appendToFrameworks_undefined: "appendToFrameworks None from = None"
  by (induction "from") auto

text \<open>
  C3. The merge is first-write-wins. For every catalog object \<open>to\<close> and every list \<open>from\<close>
  merged into it, the result is \<open>to\<close> followed by newly inserted entries: every name
  already in the catalog keeps the very framework value it had (location and
  \<open>isInstalled\<close> with it), and every inserted entry has a name that was not in the catalog
  and is one of the merged frameworks, stored under its own name.
\<close>

theorem appendToFrameworks_first_write_wins:
  "\<exists>added. appendToFrameworks (Some to) from = Some (to @ added) \<and>
     (\<forall>k v. map_of to k = Some v \<longrightarrow> map_of (to @ added) k = Some v) \<and>
     (\<forall>(k, v) \<in> set added. k \<notin> fst ` set to \<and> name v = k \<and> v \<in> set from)"
proof -
  from appendToFrameworks_Some [of to "from"] obtain added where
    a: "appendToFrameworks (Some to) from = Some (to @ added)"
    and b: "\<forall>(k, v) \<in> set added. k \<notin> fst ` set to \<and> k \<notin> set object_prototype_keys \<and>
        name v = k \<and> v \<in> set from"
    by blast
  have "\<forall>k v. map_of to k = Some v \<longrightarrow> map_of (to @ added) k = Some v"
    by (simp add: map_add_def)
  with a b show ?thesis by blast
qed

text \<open>
  The spec's example: a catalog seeded with \<open>nsa\<close> from disk, merged with a download
  result for \<open>nsa\<close> and \<open>mitre\<close>, keeps the disk entry of \<open>nsa\<close> and gains \<open>mitre\<close>.
\<close>

theorem appendToFrameworks_first_write_wins_witness:
  "\<exists>added. appendToFrameworks (Some [(''nsa'', nsa_on_disk)]) [nsa_downloaded, mitre_downloaded] =
       Some ([(''nsa'', nsa_on_disk)] @ added) \<and>
     map_of ([(''nsa'', nsa_on_disk)] @ added) ''nsa'' = Some nsa_on_disk \<and>
     added = [(''mitre'', mitre_downloaded)]"
  using appendToFrameworks_first_write_wins
    [of "[(''nsa'', nsa_on_disk)]" "[nsa_downloaded, mitre_downloaded]"]
  by (simp add: truthy_at_def object_prototype_keys_def nsa_downloaded_def
      mitre_downloaded_def)

section \<open>The active set\<close>

lemma set_installed_keys: "map fst (set_installed key c) = map fst c"
  by (induction c) (auto simp: set_installed_def)

lemma mark_installed_listed:
  "set l \<subseteq> fst ` set c \<Longrightarrow>
   mark_installed l c =
     (None, map (\<lambda>(k, f). (k, if k \<in> set l then f\<lparr>isInstalled := True\<rparr> else f)) c)"
proof (induction l arbitrary: c)
  case Nil
  then show ?case by simp
next
  case (Cons n l)
  have keys: "fst ` set (set_installed n c) = fst ` set c"
    using set_installed_keys [of n c] by (metis set_map)
  from Cons.prems have "set l \<subseteq> fst ` set (set_installed n c)" and n: "n \<in> fst ` set c"
    using keys by auto
  from Cons.IH [OF this(1)] n show ?case
    by (auto simp: set_installed_def)
qed

lemma mark_installed_all:
  "mark_installed (map fst c) c = (None, map (\<lambda>(k, f). (k, f\<lparr>isInstalled := True\<rparr>)) c)"
proof -
  have "set (map fst c) \<subseteq> fst ` set c" by simp
  from mark_installed_listed [OF this]
  have "mark_installed (map fst c) c =
      (None, map (\<lambda>(k, f). (k, if k \<in> set (map fst c) then f\<lparr>isInstalled := True\<rparr> else f)) c)" .
  moreover have "map (\<lambda>(k, f). (k, if k \<in> set (map fst c) then f\<lparr>isInstalled := True\<rparr> else f)) c =
      map (\<lambda>(k, f). (k, f\<lparr>isInstalled := True\<rparr>)) c"
    by (rule map_cong) force+
  ultimately show ?thesis by simp
qed

text \<open>
  C8, as the claim states it, fails: with an empty scan list (which is not absent and does
  not hold the sentinel) no framework of the catalog is activated.
\<close>

theorem select_scanFrameworks_empty_list_counterexample:
  "select_scanFrameworks (Some []) demo_catalog = (None, demo_catalog) \<and>
   map (\<lambda>(k, f). isInstalled f) demo_catalog = [False, False]"
  by (simp add: select_scanFrameworks_def demo_catalog_def nsa_on_disk_def
      mitre_downloaded_def)

text \<open>
  C8, amended. If the configured scan list is absent or contains the sentinel \<open>all\<close>, the
  step completes and every cataloged framework gets \<open>isInstalled = true\<close>. If the list
  does not contain the sentinel and every name it lists is cataloged, the step completes,
  exactly the entries with a listed name get \<open>isInstalled = true\<close>, and every other entry
  is left as it was; an empty list activates nothing.
\<close>

theorem select_scanFrameworks_active_set:
  "(scanFrameworks = None \<or> (\<exists>l. scanFrameworks = Some l \<and> ''all'' \<in> set l) \<longrightarrow>
      select_scanFrameworks scanFrameworks c =
        (None, map (\<lambda>(k, f). (k, f\<lparr>isInstalled := True\<rparr>)) c)) \<and>
   (\<forall>l. scanFrameworks = Some l \<and> ''all'' \<notin> set l \<and> set l \<subseteq> fst ` set c \<longrightarrow>
      select_scanFrameworks scanFrameworks c =
        (None, map (\<lambda>(k, f). (k, if k \<in> set l then f\<lparr>isInstalled := True\<rparr> else f)) c))"
  by (auto simp: select_scanFrameworks_def mark_installed_all mark_installed_listed)

theorem select_scanFrameworks_active_set_witness:
  "select_scanFrameworks None demo_catalog =
     (None, [(''nsa'', nsa_on_disk\<lparr>isInstalled := True\<rparr>),
             (''mitre'', mitre_downloaded\<lparr>isInstalled := True\<rparr>)]) \<and>
   select_scanFrameworks (Some [''all'']) demo_catalog =
     (None, [(''nsa'', nsa_on_disk\<lparr>isInstalled := True\<rparr>),
             (''mitre'', mitre_downloaded\<lparr>isInstalled := True\<rparr>)]) \<and>
   select_scanFrameworks (Some [''nsa'']) demo_catalog =
     (None, [(''nsa'', nsa_on_disk\<lparr>isInstalled := True\<rparr>), (''mitre'', mitre_downloaded)])"
  using select_scanFrameworks_active_set [of None demo_catalog]
    select_scanFrameworks_active_set [of "Some [''all'']" demo_catalog]
    select_scanFrameworks_active_set [of "Some [''nsa'']" demo_catalog]
  by (simp add: demo_catalog_def)

section \<open>Path expansion\<close>

text \<open>
  C9. \<open>expand\<close> replaces the first occurrence of each variable only, and it replaces a
  variable's name where it is the beginning of a longer name: with \<open>A = x\<close> the path
  \<open>$A/$A\<close> becomes \<open>x/$A\<close>, and with \<open>HOME\<close> set and \<open>HOMEDIR\<close> unset the token
  \<open>$HOMEDIR\<close> is not left literal.
\<close>

theorem expand_replaces_first_occurrence_only:
  "expand (demo_world\<lparr>process_env := [(''A'', ''x'')]\<rparr>) ''$A/$A'' = ''x/$A'' \<and>
   expand demo_world ''$HOMEDIR/bin'' = ''/home/userDIR/bin''"
  by (simp add: expand_def demo_world_def posix_normalize_def js_split_def js_replace_def)

section \<open>Version detection and reconciliation\<close>

lemma emit_fields [simp]:
  "api_isInitialized (emit e s) = api_isInitialized s"
  "api_isInstalled (emit e s) = api_isInstalled s"
  "api_path (emit e s) = api_path s"
  "api_frameworkDir (emit e s) = api_frameworkDir s"
  "api_versionInfo (emit e s) = api_versionInfo s"
  "api_frameworks (emit e s) = api_frameworks s"
  "trace (emit e s) = trace s @ [e]"
  by (simp_all add: emit_def)




text \<open>
  C10, as the claim states it, fails: a version subcommand that exits with an error has
  an output without a version token, and \<open>getKubescapeVersion\<close> does not resolve at all
  (the callback throws, and the promise stays pending).
\<close>

theorem getKubescapeVersion_failed_subcommand_counterexample:
  "first_version_match
     (stdout (exec_o crashing_world [] (dq # ''/opt/kubescape/kubescape'' @ dq # '' version''))) = None \<and>
   fst (getKubescapeVersion crashing_world ''latest'' demo_ready) = Pending \<and>
   fst (getKubescapeVersion crashing_world ''v2.0.144'' demo_ready) = Pending"
  by code_simp

text \<open>
  C10, amended. If the version subcommand exits without error and its standard output
  contains no token matching \<open>v<major>.<minor>.<patch>\<close>, then \<open>getKubescapeVersion\<close>
  resolves with the placeholder version \<open>unknown\<close> and \<open>isLatest = true\<close>, whatever the
  requested kind; the only event it adds is the subprocess, so no upstream query is made.
\<close>

theorem getKubescapeVersion_unknown:
  assumes "api_isInstalled s" and "api_path s = Some p"
    and "\<not> err (exec_o w (trace s) (dq # fullPath p @ dq # CHR '' '' # COMMAND_GET_VERSION))"
    and "first_version_match
           (stdout (exec_o w (trace s) (dq # fullPath p @ dq # CHR '' '' # COMMAND_GET_VERSION))) = None"
  shows "getKubescapeVersion w kind s =
           (Resolved \<lparr>version = ''unknown'', isLatest = True\<rparr>,
            s\<lparr>trace := trace s @ [Exec (dq # fullPath p @ dq # CHR '' '' # COMMAND_GET_VERSION)]\<rparr>)"
  using assms
  by (simp add: getKubescapeVersion_def buildKubescapeCommand_def get_path_def exec_def emit_def)

theorem getKubescapeVersion_unknown_witness:
  "getKubescapeVersion devbuild_world ''latest'' demo_ready =
     (Resolved \<lparr>version = ''unknown'', isLatest = True\<rparr>,
      demo_ready\<lparr>trace := trace demo_ready @
         [Exec (dq # ''/opt/kubescape/kubescape'' @ dq # CHR '' '' # COMMAND_GET_VERSION)]\<rparr>)"
proof -
  have a: "api_isInstalled demo_ready"
    by (simp add: demo_ready_def)
  have b: "api_path demo_ready =
      Some \<lparr>fullPath = ''/opt/kubescape/kubescape'', baseDir = ''/opt/kubescape''\<rparr>"
    by (simp add: demo_ready_def)
  have c: "\<not> err (exec_o devbuild_world (trace demo_ready)
      (dq # fullPath \<lparr>fullPath = ''/opt/kubescape/kubescape'', baseDir = ''/opt/kubescape''\<rparr> @
       dq # CHR '' '' # COMMAND_GET_VERSION))"
    by (simp add: devbuild_world_def)
  have d: "first_version_match (stdout (exec_o devbuild_world (trace demo_ready)
      (dq # fullPath \<lparr>fullPath = ''/opt/kubescape/kubescape'', baseDir = ''/opt/kubescape''\<rparr> @
       dq # CHR '' '' # COMMAND_GET_VERSION))) = None"
    by code_simp
  from getKubescapeVersion_unknown [OF a b c d, of "''latest''"] show ?thesis by simp
qed




section \<open>Output-protocol negotiation\<close>







section \<open>Selective download\<close>

lemma map_filter_first:
  "i \<in> set xs \<Longrightarrow> f i = Some e0 \<Longrightarrow>
   \<exists>e es. List.map_filter f xs = e # es \<and> (\<exists>j \<in> set xs. f j = Some e)"
proof (induction xs)
  case Nil
  then show ?case by simp
next
  case (Cons x xs)
  show ?case
  proof (cases "f x")
    case None
    with Cons show ?thesis by auto
  next
    case (Some y)
    then show ?thesis by auto
  qed
qed

lemma promise_all_rejects:
  assumes "i \<in> set order" and "i < length rs" and "rs ! i = Rejected e0"
  shows "\<exists>e. promise_all order rs = Rejected e \<and> (\<exists>j < length rs. rs ! j = Rejected e)"
proof -
  define f where "f = (\<lambda>i. if i < length rs then rejection (rs ! i) else None)"
  have "f i = Some e0" using assms by (simp add: f_def)
  with map_filter_first [of i order f e0] assms(1)
  obtain e es j where l: "List.map_filter f order = e # es" and j: "f j = Some e"
    by blast
  from j have "j < length rs" "rs ! j = Rejected e"
    by (auto simp: f_def split: if_splits elim: rejection.elims)
  with l show ?thesis by (auto simp: promise_all_def f_def)
qed

lemma settle_order_complete:
  "i < length started \<Longrightarrow> i \<in> set (settle_order started sched)"
  by (auto simp: settle_order_def completion_order_def)

lemma start_downloads_names:
  "start_downloads w fs s = (started, s') \<Longrightarrow>
   map fst started = fs \<and> api_frameworks s' = api_frameworks s"
proof (induction fs arbitrary: s started s')
  case Nil
  then show ?case by simp
next
  case (Cons f fs)
  then show ?case
    by (auto simp: exec_def split: sum.splits prod.splits)
qed

lemma settle_failed_download:
  "err r \<Longrightarrow> fst (settle_download w s (framework, Inr r)) = Rejected (download_failed framework (stderr r))"
  by (simp add: settle_download_def download_callback_def split: sum.splits)

text \<open>
  C4, as the claim states it, fails. Two selective downloads are started; the subprocess
  for \<open>nsa\<close> fails and the one for \<open>mitre\<close> succeeds. The caller observes the rejection
  for \<open>nsa\<close>, but the catalog afterwards does not contain \<open>mitre\<close>, although the same
  download alone would have added it.
\<close>

theorem installFrameworks_failed_sibling_counterexample:
  "map (\<lambda>p. (fst p, case snd p of Inl e \<Rightarrow> True | Inr x \<Rightarrow> err x))
     (fst (start_downloads demo_world [''nsa'', ''mitre''] demo_ready)) =
     [(''nsa'', True), (''mitre'', False)] \<and>
   fst (installFrameworks demo_world [''nsa'', ''mitre''] demo_ready) =
     Rejected (download_failed ''nsa'' ''failed'') \<and>
   api_frameworks (snd (installFrameworks demo_world [''nsa'', ''mitre''] demo_ready)) = Some [] \<and>
   api_frameworks (snd (installFrameworks demo_world [''mitre''] demo_ready)) =
     Some [(''mitre'',
            \<lparr>name = ''mitre'', isInstalled = False,
             location = JStr ''/opt/kubescape/mitre.json''\<rparr>)]"
  by code_simp

text \<open>
  C4, amended. When one of the concurrently started selective downloads fails (its
  subprocess exits with an error), whatever the others do, the caller of
  \<open>installFrameworks\<close> observes a rejection, which is the rejection of one of the failed
  downloads and carries the failing framework's message when it is the only one that
  rejects; and the catalog afterwards is the catalog as the marking loop left it: no
  downloaded framework is merged, the successfully downloaded ones included. The results
  are merged only when every download resolves.
\<close>

theorem installFrameworks_merges_nothing_on_failure:
  assumes need: "frameworksNeedsDownload frameworks (api_frameworks s) = (needed, fws)"
    and start: "start_downloads w needed (s\<lparr>api_frameworks := fws\<rparr>) = (started, s1)"
    and failed: "(framework, Inr r) \<in> set started" and err: "err r"
  shows "\<exists>e s'. installFrameworks w frameworks s = (Rejected e, s') \<and> api_frameworks s' = fws \<and>
           (\<exists>p \<in> set started. fst (settle_download w s1 p) = Rejected e) \<and>
           ((\<forall>p \<in> set started. p \<noteq> (framework, Inr r) \<longrightarrow>
                rejection (fst (settle_download w s1 p)) = None) \<longrightarrow>
            e = download_failed framework (stderr r))"
proof -
  define settled where "settled = map (settle_download w s1) started"
  define order where "order = settle_order started (schedule_o w (trace s1))"
  from failed obtain i where i: "i < length started" "started ! i = (framework, Inr r)"
    by (auto simp: in_set_conv_nth)
  have ri: "map fst settled ! i = Rejected (download_failed framework (stderr r))"
    using i err by (simp add: settled_def settle_failed_download)
  have il: "i < length (map fst settled)"
    using i(1) by (simp add: settled_def)
  have io: "i \<in> set order"
    unfolding order_def by (rule settle_order_complete [OF i(1)])
  from promise_all_rejects [OF io il ri]
  obtain e j where e: "promise_all order (map fst settled) = Rejected e"
    and j: "j < length (map fst settled)" "map fst settled ! j = Rejected e"
    by blast
  from j have j': "j < length started" "fst (settle_download w s1 (started ! j)) = Rejected e"
    by (simp_all add: settled_def)
  from start_downloads_names [OF start] have n: "map fst started = needed"
    and f1: "api_frameworks s1 = fws" by simp_all
  from n i(1) have ne: "length needed > 0" by auto
  have dl: "downloadMissingFrameworks w needed (s\<lparr>api_frameworks := fws\<rparr>) =
      (Rejected e, s1\<lparr>trace := trace s1 @ concat (map (\<lambda>i. snd (settled ! i)) order)\<rparr>)"
    using start e by (simp add: downloadMissingFrameworks_def settled_def order_def)
  have inst: "installFrameworks w frameworks s =
      (Rejected e, s1\<lparr>trace := trace s1 @ concat (map (\<lambda>i. snd (settled ! i)) order)\<rparr>)"
    using need ne dl by (simp add: installFrameworks_def)
  have p: "\<exists>p \<in> set started. fst (settle_download w s1 p) = Rejected e"
    using j' by (intro bexI [of _ "started ! j"]) simp_all
  have only: "e = download_failed framework (stderr r)"
    if "\<forall>p \<in> set started. p \<noteq> (framework, Inr r) \<longrightarrow>
          rejection (fst (settle_download w s1 p)) = None"
  proof (cases "started ! j = (framework, Inr r)")
    case True
    with j' err show ?thesis by (simp add: settle_failed_download)
  next
    case False
    moreover have "started ! j \<in> set started" using j'(1) by simp
    ultimately have "rejection (fst (settle_download w s1 (started ! j))) = None"
      using that by blast
    with j' show ?thesis by simp
  qed
  have fin: "api_frameworks (s1\<lparr>trace := trace s1 @ concat (map (\<lambda>i. snd (settled ! i)) order)\<rparr>) = fws"
    using f1 by simp
  show ?thesis
    apply (rule exI [of _ e])
    apply (rule exI [of _ "s1\<lparr>trace := trace s1 @ concat (map (\<lambda>i. snd (settled ! i)) order)\<rparr>"])
    using inst fin p only by blast
qed

theorem installFrameworks_merges_nothing_on_failure_witness:
  "\<exists>e s'. installFrameworks demo_world [''nsa'', ''mitre''] demo_ready = (Rejected e, s') \<and>
     api_frameworks s' = Some [] \<and> e = download_failed ''nsa'' ''failed''"
proof -
  define st where
    "st = start_downloads demo_world [''nsa'', ''mitre''] (demo_ready\<lparr>api_frameworks := Some []\<rparr>)"
  have need: "frameworksNeedsDownload [''nsa'', ''mitre''] (api_frameworks demo_ready) =
      ([''nsa'', ''mitre''], Some [])"
    by code_simp
  have start: "start_downloads demo_world [''nsa'', ''mitre'']
      (demo_ready\<lparr>api_frameworks := Some []\<rparr>) = (fst st, snd st)"
    by (simp add: st_def)
  have failed: "(''nsa'', Inr \<lparr>err = True, stdout = [], stderr = ''failed''\<rparr>) \<in> set (fst st)"
    unfolding st_def by code_simp
  have err: "err \<lparr>err = True, stdout = [], stderr = ''failed''\<rparr>"
    by simp
  have others: "\<forall>p \<in> set (fst st).
      p \<noteq> (''nsa'', Inr \<lparr>err = True, stdout = [], stderr = ''failed''\<rparr>) \<longrightarrow>
      rejection (fst (settle_download demo_world (snd st) p)) = None"
    unfolding st_def by code_simp
  from installFrameworks_merges_nothing_on_failure [OF need start failed err] others
  show ?thesis by auto
qed

section \<open>Idempotent setup\<close>

text \<open>
  In \<open>src/unnamed/part_000\<close> a call of \<open>setup\<close> that returned true has set the flag, and every
  further call, whatever the world, the configuration and the abort controller, returns
  true after the single UI call that wraps it, leaving every field as it was.
\<close>

theorem kubescape_setup_idempotent:
  assumes "kubescape_setup w configs abort s = (Resolved True, s')"
  shows "api_isInitialized s' \<and>
         kubescape_setup w' configs' abort' s' =
           (Resolved True, emit (Ui_progress ''Initializing kubescape HIHI'') s')"
proof -
  have "api_isInitialized s'"
    using assms
    by (auto simp: kubescape_setup_def Let_def
        split: if_splits sum.splits prod.splits outcome.splits bool.splits)
  then show ?thesis
    by (simp add: kubescape_setup_def)
qed

theorem kubescape_setup_idempotent_witness:
  "fst (kubescape_setup demo_world demo_config False new_KubescapeApi) = Resolved True \<and>
   api_isInitialized after_setup \<and>
   kubescape_setup crashing_world (demo_config\<lparr>cfg_version := ''latest''\<rparr>) True after_setup =
     (Resolved True, emit (Ui_progress ''Initializing kubescape HIHI'') after_setup)"
proof -
  have a: "fst (kubescape_setup demo_world demo_config False new_KubescapeApi) = Resolved True"
    by code_simp
  then have "kubescape_setup demo_world demo_config False new_KubescapeApi =
      (Resolved True, after_setup)"
    by (simp add: after_setup_def prod_eq_iff)
  from kubescape_setup_idempotent [OF this] a show ?thesis by simp
qed

text \<open>
  C1. In \<open>src/index.ts\<close> no statement sets the flag that the guard of \<open>setup\<close> tests. On
  the concrete host a first call returns true and leaves the orchestrator uninitialized;
  the second call returns true again after running the installation probe, the version
  subcommand and the directory listing once more.
\<close>

theorem kubescape_setup_index_runs_again:
  "fst (kubescape_setup_index demo_world demo_config False new_KubescapeApi) = Resolved True \<and>
   \<not> api_isInitialized after_setup_index \<and>
   fst (kubescape_setup_index demo_world demo_config False after_setup_index) = Resolved True \<and>
   filter is_effect
     (drop (length (trace after_setup_index))
        (trace (snd (kubescape_setup_index demo_world demo_config False after_setup_index)))) =
     [Exec (dq # ''/opt/kubescape/kubescape'' @ dq # '' help''),
      Exec (dq # ''/opt/kubescape/kubescape'' @ dq # '' version''),
      Fs_readdir ''/opt/kubescape'']"
  by code_simp

section \<open>Downloader\<close>

lemma report_chunks_trace:
  "\<exists>evs. report_chunks n r cs s = s\<lparr>trace := trace s @ evs\<rparr>"
proof (induction cs arbitrary: r s)
  case Nil
  show ?case by (rule exI [of _ "[]"]) simp
next
  case (Cons c cs)
  from Cons [of "r + length c" "emit (Ui_fraction (r + length c) n) s"]
  obtain evs where "report_chunks n (r + length c) cs (emit (Ui_fraction (r + length c) n) s) =
      (emit (Ui_fraction (r + length c) n) s)\<lparr>trace := trace (emit (Ui_fraction (r + length c) n) s) @ evs\<rparr>"
    by blast
  then show ?case
    by (intro exI [of _ "Ui_fraction (r + length c) n # evs"]) (simp add: emit_def)
qed

text \<open>
  What holds of the claim: once the directory text decodes, \<open>downloadFile\<close> always
  resolves, with the empty text or with the local path.
\<close>

lemma downloadFile_resolves:
  assumes "decodeURIComponent w downloadDir = Some d"
  shows "\<exists>p s'. downloadFile w url downloadDir fileName abort executable s = (Resolved p, s') \<and>
          (p = [] \<or> p = path_resolve w [d, fileName])"
  using assms by (auto simp: downloadFile_def Let_def split: prod.splits)

text \<open>
  The failure modes the claim lists, in a world where the directory decodes and can be
  created: a failed or cancelled request, an unsuccessful response, a missing body and
  a stream that fails all give the empty text; on a failing stream the partial file is
  unlinked, and the error message of the \<open>catch\<close> block is the last event.
\<close>

lemma downloadFile_failure_modes:
  assumes d: "decodeURIComponent w downloadDir = Some d"
    and m: "mkdir_o w (trace s @ [Ui_progress ''Downloading Kubescape'', Ui_debug, Ui_debug]) d"
    and f: "fetch_o w (trace s @ [Ui_progress ''Downloading Kubescape'', Ui_debug, Ui_debug,
                                   Fs_mkdir d]) url = r"
  shows "(r = None \<or> (\<exists>res. r = Some res \<and> (\<not> ok res \<or> body res = None)) \<longrightarrow>
            fst (downloadFile w url downloadDir fileName abort executable s) = Resolved []) \<and>
         (\<forall>res b. r = Some res \<and> ok res \<and> body res = Some b \<and> stream_fails b \<longrightarrow>
            (\<exists>evs. downloadFile w url downloadDir fileName abort executable s =
               (Resolved [],
                s\<lparr>trace := trace s @ evs @ [Fs_unlink (path_resolve w [d, fileName]), Ui_error]\<rparr>)))"
proof -
  have "downloadFile w url downloadDir fileName abort executable s =
      (Resolved [], s\<lparr>trace := trace s @ evs @ [Fs_unlink (path_resolve w [d, fileName]), Ui_error]\<rparr>)"
    if "r = Some res" "ok res" "body res = Some b" "stream_fails b"
      and "report_chunks (content_length b) 0 (chunks b)
             (s\<lparr>trace := trace s @ [Ui_progress ''Downloading Kubescape'', Ui_debug, Ui_debug,
                  Fs_mkdir d, Fetch url, Ui_debug,
                  Fs_createWriteStream (path_resolve w [d, fileName])]\<rparr>) =
           s\<lparr>trace := trace s @ evs\<rparr>" for res b evs
    using that d m f
    by (simp add: downloadFile_def download_work_def fetch_def emit_def)
  moreover have "\<exists>evs. report_chunks n 0 cs (s\<lparr>trace := trace s @ pre\<rparr>) = s\<lparr>trace := trace s @ evs\<rparr>"
    for n cs pre
    using report_chunks_trace [of n 0 cs "s\<lparr>trace := trace s @ pre\<rparr>"] by auto
  ultimately have "\<forall>res b. r = Some res \<and> ok res \<and> body res = Some b \<and> stream_fails b \<longrightarrow>
      (\<exists>evs. downloadFile w url downloadDir fileName abort executable s =
         (Resolved [],
          s\<lparr>trace := trace s @ evs @ [Fs_unlink (path_resolve w [d, fileName]), Ui_error]\<rparr>))"
    by metis
  moreover have "r = None \<or> (\<exists>res. r = Some res \<and> (\<not> ok res \<or> body res = None)) \<longrightarrow>
      fst (downloadFile w url downloadDir fileName abort executable s) = Resolved []"
    using d m f
    by (auto simp: downloadFile_def download_work_def fetch_def emit_def)
  ultimately show ?thesis by blast
qed

text \<open>
  C6. A directory text that does not decode makes \<open>downloadFile\<close> throw: the call of
  \<open>decodeURIComponent\<close> stands before the \<open>try\<close> block, and its URIError escapes as the
  rejection of the returned promise, with no event at all.
\<close>

theorem downloadFile_malformed_directory:
  "downloadFile demo_world ''https://example.org/kubescape'' ''/opt/100%'' ''kubescape'' False True
     demo_ready = (Rejected URIError, demo_ready)"
  by (simp add: downloadFile_def demo_world_def)

section \<open>Scans\<close>

text \<open>
  What holds of the claim: a failed subprocess is logged and the result file is read all
  the same, and a report that parses to a falsy value gives the empty object.
\<close>

lemma controls_of_files_trace:
  "\<exists>evs. trace (snd (controls_of_files w dir fs m s)) = trace s @ evs"
proof (induction fs arbitrary: m s)
  case Nil
  then show ?case by simp
next
  case (Cons f fs)
  show ?case
  proof (cases "suffix ''.json'' f")
    case False
    with Cons [of m s] show ?thesis by simp
  next
    case True
    show ?thesis
    proof (cases "decodeURIComponent w (path_join w [dir, f])")
      case None
      with True Cons [of m s] show ?thesis by simp
    next
      case (Some p)
      show ?thesis
      proof (cases "readFile_o w (trace s) p")
        case None
        from Cons [of m "emit (Fs_readFile p) s"]
        obtain evs where "trace (snd (controls_of_files w dir fs m (emit (Fs_readFile p) s))) =
            trace (emit (Fs_readFile p) s) @ evs" by blast
        with True Some None show ?thesis by simp
      next
        case (Some f_text)
        from Cons [of "file_controls w f_text m" "emit (Fs_readFile p) s"]
        obtain evs where "trace (snd (controls_of_files w dir fs (file_controls w f_text m)
            (emit (Fs_readFile p) s))) = trace (emit (Fs_readFile p) s) @ evs" by blast
        with True \<open>decodeURIComponent w (path_join w [dir, f]) = Some p\<close> Some
        show ?thesis by simp
      qed
    qed
  qed
qed

lemma appendControls_trace:
  "\<exists>evs. trace (snd (appendControlsInformationToV2Report w report s)) = trace s @ evs"
proof (cases "get_frameworkDirectory s")
  case (Inl e)
  then show ?thesis
    by (simp add: appendControlsInformationToV2Report_def getControlsMap_def)
next
  case (Inr dir)
  show ?thesis
  proof (cases "readdir_o w (trace s) dir")
    case None
    with Inr show ?thesis
      by (simp add: appendControlsInformationToV2Report_def getControlsMap_def)
  next
    case (Some files)
    from controls_of_files_trace [of w dir files "[]" "emit (Fs_readdir dir) s"]
    obtain evs where "trace (snd (controls_of_files w dir files [] (emit (Fs_readdir dir) s))) =
        trace (emit (Fs_readdir dir) s) @ evs" by blast
    with Inr Some show ?thesis
      by (auto simp: appendControlsInformationToV2Report_def getControlsMap_def
          split: prod.splits sum.splits)
  qed
qed

lemma scan_callback_reads_after_failure:
  "\<exists>evs. trace (snd (scan_callback w file r s)) =
     trace s @ (if err r then [Ui_debug, Ui_error] else [Ui_debug]) @ Fs_readFile file # evs"
proof -
  define s1 where "s1 = (if err r then emit Ui_error (emit Ui_debug s) else emit Ui_debug s)"
  define s2 where "s2 = emit (Fs_readFile file) s1"
  have t2: "trace s2 = trace s @ (if err r then [Ui_debug, Ui_error] else [Ui_debug]) @ [Fs_readFile file]"
    by (simp add: s2_def s1_def)
  have "\<exists>evs. trace (snd (scan_callback w file r s)) = trace s2 @ evs"
  proof (cases "readFile_o w (trace s1) file")
    case None
    then show ?thesis
      by (simp add: scan_callback_def s1_def [symmetric] s2_def [symmetric] Let_def)
  next
    case (Some content)
    show ?thesis
    proof (cases "JSON_parse w content")
      case None
      with Some show ?thesis
        by (simp add: scan_callback_def s1_def [symmetric] s2_def [symmetric] Let_def)
    next
      case (Some report)
      from appendControls_trace [of w report "emit Ui_debug s2"]
      obtain evs where "trace (snd (appendControlsInformationToV2Report w report (emit Ui_debug s2))) =
          trace (emit Ui_debug s2) @ evs" by blast
      with Some \<open>readFile_o w (trace s1) file = Some content\<close> show ?thesis
        by (auto simp: scan_callback_def s1_def [symmetric] s2_def [symmetric] Let_def
            split: prod.splits outcome.splits)
    qed
  qed
  with t2 show ?thesis by auto
qed

lemma scan_callback_falsy_report:
  assumes "readFile_o w (trace s @ (if err r then [Ui_debug, Ui_error] else [Ui_debug])) file = Some text"
    and "JSON_parse w text = Some report" and "\<not> truthy report"
  shows "fst (scan_callback w file r s) = Resolved (JObj [])"
  using assms by (auto simp: scan_callback_def Let_def)

text \<open>
  C7. The subprocess of a scan fails and leaves no result file (or one that holds no
  JSON). The failure is logged and the file is read, the read (or the parse) throws inside
  the callback, and the promise of the scan never settles: the caller receives neither an
  empty object nor any other report.
\<close>

theorem scan_without_report_never_settles:
  "fst (scanYaml demo_world ''deploy.yaml'' None demo_ready) = Pending \<and>
   drop 6 (trace (snd (scanYaml demo_world ''deploy.yaml'' None demo_ready))) =
     [Ui_debug, Ui_error, Fs_readFile ''/tmp/kx3f9a/report-1b9d6bcd.json'', Uncaught SystemError] \<and>
   fst (scanCluster demo_world ''minikube'' None None demo_ready) = Pending \<and>
   drop 5 (trace (snd (scanCluster demo_world ''minikube'' None None demo_ready))) =
     [Ui_debug, Ui_error, Fs_readFile ''/tmp/kx3f9a/report-1b9d6bcd.json'', Uncaught SystemError] \<and>
   fst (scanYaml garbled_world ''deploy.yaml'' None demo_ready) = Pending \<and>
   drop 6 (trace (snd (scanYaml garbled_world ''deploy.yaml'' None demo_ready))) =
     [Ui_debug, Ui_error, Fs_readFile ''/tmp/kx3f9a/report-1b9d6bcd.json'', Uncaught SyntaxError]"
  by code_simp

end
